theory Spec2Isabelle
  imports Main "HOL-Library.Word"
begin

unbundle bit_operations_syntax

section \<open>Basic types\<close>

text \<open>
  Go's \<^verbatim>\<open>byte\<close> is an 8-bit word, \<^verbatim>\<open>uuid.UUID\<close> is a 16-byte value read here as a
  128-bit word (\<^verbatim>\<open>uuid.Nil\<close> is zero), and a \<^verbatim>\<open>time.Time\<close> is counted in nanoseconds
  since the Unix epoch.
\<close>

type_synonym byte = "8 word"
type_synonym uuid = "128 word"
type_synonym time = int

definition uuid_Nil :: uuid where
  "uuid_Nil = 0"

text \<open>
  Errors are values. The package-level sentinels of the services keep their names;
  \<^verbatim>\<open>errors.New(msg)\<close> at a call site is \<open>ErrorsNew msg\<close>. An error that comes from a
  collaborator outside the services (database driver, entropy source, bcrypt, JWT
  library) is \<open>Ext msg\<close>: no collaborator can return one of the sentinels of the services.
  \<open>ErrRecordNotFound\<close> is \<^verbatim>\<open>gorm.ErrRecordNotFound\<close>.
\<close>

datatype error =
    ErrCredentialNotFound
  | ErrMaxCredentialsReached
  | ErrInvalidPublicKey
  | ErrClientIDExists
  | ErrMaxKeysReached
  | ErrKeyNotFound
  | ErrInvalidCredentials
  | ErrEmailExists
  | ErrUserNotFound
  | ErrRecordNotFound
  | ErrorsNew string
  | Ext string

section \<open>Secret generator (internal/models/api\_key.go, unnamed/part\_005)\<close>

text \<open>
  \<^verbatim>\<open>hex.EncodeToString\<close>: two digits of the table \<^verbatim>\<open>0123456789abcdef\<close> per byte, high
  nibble first.
\<close>

definition hextable :: string where
  "hextable = ''0123456789abcdef''"

fun hex_EncodeToString :: "byte list \<Rightarrow> string" where
  "hex_EncodeToString [] = []"
| "hex_EncodeToString (b # bs) =
     hextable ! unat (drop_bit 4 b) # hextable ! unat (b AND 0x0f) # hex_EncodeToString bs"

text \<open>
  One call of \<^verbatim>\<open>rand.Read(buf)\<close>: the entropy source either reports an error or fills
  the whole buffer. \<open>RandBytes f\<close> is a source that delivers byte \<open>f i\<close> at position \<open>i\<close>,
  so a successful read of \<open>n\<close> bytes has exactly \<open>n\<close> bytes.
\<close>

datatype rand_source = RandFail string | RandBytes "nat \<Rightarrow> byte"

fun rand_Read :: "nat \<Rightarrow> rand_source \<Rightarrow> error + byte list" where
  "rand_Read n (RandFail msg) = Inl (Ext msg)"
| "rand_Read n (RandBytes f) = Inr (map f [0..<n])"

text \<open>
  \<^verbatim>\<open>GenerateAPIKey() (string, string, error)\<close>. The slice \<^verbatim>\<open>fullKey[:12]\<close> is in range:
  \<open>fullKey\<close> always has 68 characters (lemma \<open>length_hex_EncodeToString\<close>).
\<close>

definition GenerateAPIKey :: "rand_source \<Rightarrow> string \<times> string \<times> error option" where
  "GenerateAPIKey src =
     (case rand_Read 32 src of
        Inl err \<Rightarrow> ('''', '''', Some err)
      | Inr bytes \<Rightarrow>
          (let fullKey = ''bas_'' @ hex_EncodeToString bytes;
               prefix = take 12 fullKey
           in (fullKey, prefix, None)))"

text \<open>
  \<^verbatim>\<open>GenerateClientCredentials() (clientID, clientSecret, secretPrefix string, err error)\<close>
  reads the entropy source twice; the second read happens only when the first worked.
\<close>

definition GenerateClientCredentials ::
  "rand_source \<Rightarrow> rand_source \<Rightarrow> string \<times> string \<times> string \<times> error option" where
  "GenerateClientCredentials src1 src2 =
     (case rand_Read 16 src1 of
        Inl err \<Rightarrow> ('''', '''', '''', Some err)
      | Inr idBytes \<Rightarrow>
          (let clientID = ''BAS'' @ take 29 (hex_EncodeToString idBytes)
           in case rand_Read 32 src2 of
                Inl err \<Rightarrow> ('''', '''', '''', Some err)
              | Inr secretBytes \<Rightarrow>
                  (let clientSecret = hex_EncodeToString secretBytes;
                       secretPrefix = take 8 clientSecret @ ''...''
                   in (clientID, clientSecret, secretPrefix, None))))"

definition GenerateChannelID :: "rand_source \<Rightarrow> string \<times> error option" where
  "GenerateChannelID src =
     (case rand_Read 8 src of
        Inl err \<Rightarrow> ('''', Some err)
      | Inr bytes \<Rightarrow> (''CH'' @ hex_EncodeToString bytes, None))"

text \<open>A string of lowercase hexadecimal digits.\<close>

definition lower_hex :: "string \<Rightarrow> bool" where
  "lower_hex s = list_all (\<lambda>c. c \<in> set ''0123456789abcdef'') s"

section \<open>Data model (internal/models/user.go, internal/models/api\_key.go, unnamed/part\_005)\<close>

text \<open>
  The structs are records with the fields of the source. The ORM's \<^verbatim>\<open>UpdatedAt\<close> stamp
  and the relations (\<^verbatim>\<open>User\<close>, \<^verbatim>\<open>APIKeys\<close>) are left out: no function of the source reads
  or writes them. A nullable \<^verbatim>\<open>*time.Time\<close> and \<^verbatim>\<open>gorm.DeletedAt\<close> are options; a row
  whose \<open>DeletedAt\<close> is set is soft-deleted. The field names of the earlier records are
  written with their record's name (\<open>APIKey.ID\<close>); the unqualified names are those of
  \<open>PartnerCredential\<close>, which is declared last for that reason, after the input structs
  of its service.
\<close>

record User =
  ID :: uuid
  Email :: string
  PasswordHash :: string
  FullName :: string
  JobTitle :: string
  Company :: string
  Provider :: string
  ProviderID :: string
  IsVerified :: bool
  CreatedAt :: time
  DeletedAt :: "time option"

record UserResponse =
  ID :: uuid
  Email :: string
  FullName :: string
  JobTitle :: string
  Company :: string
  Provider :: string
  IsVerified :: bool
  CreatedAt :: time

record APIKey =
  ID :: uuid
  UserID :: uuid
  Name :: string
  KeyPrefix :: string
  KeyHash :: string
  Environment :: string
  IsActive :: bool
  LastUsedAt :: "time option"
  ExpiresAt :: "time option"
  CreatedAt :: time
  DeletedAt :: "time option"

record APIKeyResponse =
  ID :: uuid
  Name :: string
  KeyPrefix :: string
  Environment :: string
  IsActive :: bool
  LastUsedAt :: "time option"
  ExpiresAt :: "time option"
  CreatedAt :: time

record APIKeyCreateResponse =
  Response :: APIKeyResponse
  Key :: string

record PartnerCredentialResponse =
  ID :: uuid
  ClientID :: string
  ClientSecretPrefix :: string
  PublicKeyFingerprint :: string
  PublicKeyAddedAt :: "time option"
  PartnerName :: string
  ChannelID :: string
  Environment :: string
  CallbackURL :: string
  IPWhitelist :: "string list option"
  IsActive :: bool
  ExpiresAt :: "time option"
  LastUsedAt :: "time option"
  CreatedAt :: time

record PartnerCredentialCreateResponse =
  Response :: PartnerCredentialResponse
  ClientSecret :: string

record CreateKeyInput =
  Name :: string
  Environment :: string

record CreateCredentialInput =
  PartnerName :: string
  Environment :: string
  CallbackURL :: string
  IPWhitelist :: "string list option"
  PublicKey :: string

record UpdateCredentialInput =
  PartnerName :: string
  Environment :: string
  CallbackURL :: string
  IPWhitelist :: "string list option"

record PartnerCredential =
  ID :: uuid
  UserID :: uuid
  ClientID :: string
  ClientSecret :: string
  ClientSecretPrefix :: string
  PublicKey :: string
  PublicKeyFingerprint :: string
  PublicKeyAddedAt :: "time option"
  PartnerName :: string
  ChannelID :: string
  Environment :: string
  CallbackURL :: string
  IPWhitelist :: "string list option"
  IsActive :: bool
  ExpiresAt :: "time option"
  LastUsedAt :: "time option"
  CreatedAt :: time
  DeletedAt :: "time option"

text \<open>
  What an operation takes from its surroundings: the outcome of its \<open>k\<close>-th database
  statement (\<open>None\<close> when the statement runs, \<open>Some msg\<close> when the driver reports an
  error), its \<open>k\<close>-th read of the entropy source, the readings of the clock
  (\<^verbatim>\<open>time.Now()\<close> or SQL \<^verbatim>\<open>NOW()\<close>), numbered by the place in the operation where
  they are taken, and the value of \<^verbatim>\<open>uuid.New()\<close>.
\<close>

record environment =
  db_fault :: "nat \<Rightarrow> string option"
  entropy :: "nat \<Rightarrow> rand_source"
  clock :: "nat \<Rightarrow> time"
  new_uuid :: uuid

text \<open>
  \<^verbatim>\<open>db.Where(...).First(&row)\<close>: the matching row with the least primary key, or
  \<^verbatim>\<open>gorm.ErrRecordNotFound\<close>.
\<close>

definition First :: "('a \<Rightarrow> uuid) \<Rightarrow> 'a list \<Rightarrow> error + 'a" where
  "First pk rs = (case rs of [] \<Rightarrow> Inl ErrRecordNotFound | _ # _ \<Rightarrow> Inr (arg_min_list pk rs))"

section \<open>Public key validator (unnamed/part\_005)\<close>

text \<open>
  The routines of \<^verbatim>\<open>encoding/pem\<close>, \<^verbatim>\<open>crypto/x509\<close> and \<^verbatim>\<open>crypto/sha256\<close> are parameters:
  \<open>pem_Decode\<close> returns the first PEM block of its input, if there is one; the two parsers
  say whether the DER bytes parse; \<open>sha256_Sum256\<close> returns the \<^verbatim>\<open>[32]byte\<close> digest as a
  function of the index, so that \<^verbatim>\<open>hash[:]\<close> has exactly 32 bytes.
\<close>

record pem_Block =
  Type :: string
  Bytes :: "byte list"

record x509lib =
  pem_Decode :: "string \<Rightarrow> pem_Block option"
  ParsePKIXPublicKey :: "byte list \<Rightarrow> bool"
  ParsePKCS1PublicKey :: "byte list \<Rightarrow> bool"
  sha256_Sum256 :: "byte list \<Rightarrow> nat \<Rightarrow> byte"

definition ValidatePublicKey :: "x509lib \<Rightarrow> string \<Rightarrow> string \<times> error option" where
  "ValidatePublicKey lib pemKey =
     (if pemKey = '''' then ('''', None)
      else case pem_Decode lib pemKey of
        None \<Rightarrow> ('''', Some (ErrorsNew ''invalid PEM format: no valid PEM block found''))
      | Some block \<Rightarrow>
          if Type block \<noteq> ''PUBLIC KEY'' \<and> Type block \<noteq> ''RSA PUBLIC KEY''
          then ('''', Some (ErrorsNew ''invalid PEM format: expected PUBLIC KEY or RSA PUBLIC KEY''))
          else if \<not> ParsePKIXPublicKey lib (Bytes block) \<and> \<not> ParsePKCS1PublicKey lib (Bytes block)
          then ('''', Some (ErrorsNew ''invalid public key: unable to parse''))
          else (hex_EncodeToString (map (sha256_Sum256 lib (Bytes block)) [0..<32]), None))"

text \<open>
  \<^verbatim>\<open>FormatFingerprint\<close>: the loop \<^verbatim>\<open>for i := 0; i < 16; i += 2\<close> appends
  \<^verbatim>\<open>fingerprint[i : i+2]\<close>, in range because the fingerprint has at least 16 characters.
\<close>

function FormatFingerprint_loop :: "string \<Rightarrow> nat \<Rightarrow> string \<Rightarrow> string" where
  "FormatFingerprint_loop fingerprint i formatted =
     (if i < 16
      then FormatFingerprint_loop fingerprint (i + 2)
             ((if i > 0 then formatted @ '':'' else formatted) @ take 2 (drop i fingerprint))
      else formatted)"
  by pat_completeness auto
termination
  by (relation "measure (\<lambda>(fingerprint, i, formatted). 16 - i)") auto

definition FormatFingerprint :: "string \<Rightarrow> string" where
  "FormatFingerprint fingerprint =
     (if length fingerprint < 16 then fingerprint
      else FormatFingerprint_loop fingerprint 0 '''' @ ''...'')"

definition ToResponse :: "PartnerCredential \<Rightarrow> PartnerCredentialResponse" where
  "ToResponse p =
     \<lparr> PartnerCredentialResponse.ID = ID p,
       PartnerCredentialResponse.ClientID = ClientID p,
       PartnerCredentialResponse.ClientSecretPrefix = ClientSecretPrefix p,
       PartnerCredentialResponse.PublicKeyFingerprint = FormatFingerprint (PublicKeyFingerprint p),
       PartnerCredentialResponse.PublicKeyAddedAt = PublicKeyAddedAt p,
       PartnerCredentialResponse.PartnerName = PartnerName p,
       PartnerCredentialResponse.ChannelID = ChannelID p,
       PartnerCredentialResponse.Environment = Environment p,
       PartnerCredentialResponse.CallbackURL = CallbackURL p,
       PartnerCredentialResponse.IPWhitelist = IPWhitelist p,
       PartnerCredentialResponse.IsActive = IsActive p,
       PartnerCredentialResponse.ExpiresAt = ExpiresAt p,
       PartnerCredentialResponse.LastUsedAt = LastUsedAt p,
       PartnerCredentialResponse.CreatedAt = CreatedAt p \<rparr>"

section \<open>Partner credential repository (internal/repository/partner\_credential\_repository.go)\<close>

text \<open>
  The table is the list of its rows, soft-deleted rows included. Every query of the ORM on
  a model with a \<^verbatim>\<open>DeletedAt\<close> column carries the condition \<^verbatim>\<open>deleted_at IS NULL\<close>. The
  first argument of each method is the outcome of the database statement.

  \<^verbatim>\<open>Create\<close> runs the \<^verbatim>\<open>BeforeCreate\<close> hook (a fresh ID when the ID is nil), stamps
  \<^verbatim>\<open>CreatedAt\<close> and inserts the row; the primary key and the unique index on
  \<^verbatim>\<open>client_id\<close> range over all stored rows. The caller's struct is updated through the
  pointer, so it is returned with the table.
\<close>

definition BeforeCreate :: "uuid \<Rightarrow> PartnerCredential \<Rightarrow> PartnerCredential" where
  "BeforeCreate fresh p = (if ID p = uuid_Nil then p\<lparr>ID := fresh\<rparr> else p)"

definition Create ::
  "string option \<Rightarrow> uuid \<Rightarrow> time \<Rightarrow> PartnerCredential list \<Rightarrow> PartnerCredential \<Rightarrow>
     error + (PartnerCredential list \<times> PartnerCredential)" where
  "Create fault fresh now rows credential =
     (case fault of
        Some msg \<Rightarrow> Inl (Ext msg)
      | None \<Rightarrow>
          (let row = (BeforeCreate fresh credential)\<lparr>CreatedAt := now\<rparr>
           in if list_ex (\<lambda>r. ID r = ID row \<or> ClientID r = ClientID row) rows
              then Inl (Ext ''duplicate key value violates unique constraint'')
              else Inr (rows @ [row], row)))"

definition FindByIDAndUserID ::
  "string option \<Rightarrow> PartnerCredential list \<Rightarrow> uuid \<Rightarrow> uuid \<Rightarrow> error + PartnerCredential" where
  "FindByIDAndUserID fault rows id' userID =
     (case fault of
        Some msg \<Rightarrow> Inl (Ext msg)
      | None \<Rightarrow>
          First ID (filter (\<lambda>r. ID r = id' \<and> UserID r = userID \<and> DeletedAt r = None) rows))"

definition FindByUserID ::
  "string option \<Rightarrow> PartnerCredential list \<Rightarrow> uuid \<Rightarrow> error + PartnerCredential list" where
  "FindByUserID fault rows userID =
     (case fault of
        Some msg \<Rightarrow> Inl (Ext msg)
      | None \<Rightarrow>
          Inr (sort_key (\<lambda>r. - CreatedAt r)
                 (filter (\<lambda>r. UserID r = userID \<and> IsActive r \<and> DeletedAt r = None) rows)))"

definition FindByClientID ::
  "string option \<Rightarrow> PartnerCredential list \<Rightarrow> string \<Rightarrow> error + PartnerCredential" where
  "FindByClientID fault rows clientID =
     (case fault of
        Some msg \<Rightarrow> Inl (Ext msg)
      | None \<Rightarrow>
          First ID (filter (\<lambda>r. ClientID r = clientID \<and> IsActive r \<and> DeletedAt r = None) rows))"

text \<open>
  \<^verbatim>\<open>Update\<close> is \<^verbatim>\<open>db.Save\<close>: every column of the row with the value's primary key is
  overwritten, and the value is inserted when no row has that key. The services call it
  only with a value they have just read.
\<close>

definition Update ::
  "string option \<Rightarrow> PartnerCredential list \<Rightarrow> PartnerCredential \<Rightarrow>
     error option \<times> PartnerCredential list" where
  "Update fault rows credential =
     (case fault of
        Some msg \<Rightarrow> (Some (Ext msg), rows)
      | None \<Rightarrow>
          if list_ex (\<lambda>r. ID r = ID credential) rows
          then (None, map (\<lambda>r. if ID r = ID credential then credential else r) rows)
          else (None, rows @ [credential]))"

text \<open>\<^verbatim>\<open>Delete\<close> on a model with a \<^verbatim>\<open>DeletedAt\<close> column sets that column.\<close>

definition Delete ::
  "string option \<Rightarrow> time \<Rightarrow> PartnerCredential list \<Rightarrow> uuid \<Rightarrow> uuid \<Rightarrow>
     error option \<times> PartnerCredential list" where
  "Delete fault now rows id' userID =
     (case fault of
        Some msg \<Rightarrow> (Some (Ext msg), rows)
      | None \<Rightarrow>
          (None, map (\<lambda>r. if ID r = id' \<and> UserID r = userID \<and> DeletedAt r = None
                          then r\<lparr>DeletedAt := Some now\<rparr> else r) rows))"

definition Deactivate ::
  "string option \<Rightarrow> PartnerCredential list \<Rightarrow> uuid \<Rightarrow> uuid \<Rightarrow>
     error option \<times> PartnerCredential list" where
  "Deactivate fault rows id' userID =
     (case fault of
        Some msg \<Rightarrow> (Some (Ext msg), rows)
      | None \<Rightarrow>
          (None, map (\<lambda>r. if ID r = id' \<and> UserID r = userID \<and> DeletedAt r = None
                          then r\<lparr>IsActive := False\<rparr> else r) rows))"

definition UpdateLastUsed ::
  "string option \<Rightarrow> time \<Rightarrow> PartnerCredential list \<Rightarrow> uuid \<Rightarrow>
     error option \<times> PartnerCredential list" where
  "UpdateLastUsed fault now rows id' =
     (case fault of
        Some msg \<Rightarrow> (Some (Ext msg), rows)
      | None \<Rightarrow>
          (None, map (\<lambda>r. if ID r = id' \<and> DeletedAt r = None
                          then r\<lparr>LastUsedAt := Some now\<rparr> else r) rows))"

definition CountByUserID ::
  "string option \<Rightarrow> PartnerCredential list \<Rightarrow> uuid \<Rightarrow> error + int" where
  "CountByUserID fault rows userID =
     (case fault of
        Some msg \<Rightarrow> Inl (Ext msg)
      | None \<Rightarrow>
          Inr (int (length (filter (\<lambda>r. UserID r = userID \<and> IsActive r \<and> DeletedAt r = None)
                              rows))))"

section \<open>Partner credential service (internal/services/partner\_credential\_service.go)\<close>

text \<open>
  Each method takes the table and returns its result with the table afterwards.
\<close>

definition CreateCredential ::
  "x509lib \<Rightarrow> environment \<Rightarrow> PartnerCredential list \<Rightarrow> uuid \<Rightarrow> CreateCredentialInput \<Rightarrow>
     (error + PartnerCredentialCreateResponse) \<times> PartnerCredential list" where
  "CreateCredential lib env rows userID input =
     (case CountByUserID (db_fault env 0) rows userID of
        Inl err \<Rightarrow> (Inl err, rows)
      | Inr count \<Rightarrow>
          if count \<ge> 5 then (Inl ErrMaxCredentialsReached, rows)
          else case GenerateClientCredentials (entropy env 0) (entropy env 1) of
            (_, _, _, Some err) \<Rightarrow> (Inl err, rows)
          | (clientID, clientSecret, secretPrefix, None) \<Rightarrow>
              (case GenerateChannelID (entropy env 2) of
                 (_, Some err) \<Rightarrow> (Inl err, rows)
               | (channelID, None) \<Rightarrow>
                   (case (if CreateCredentialInput.PublicKey input \<noteq> ''''
                          then (case ValidatePublicKey lib (CreateCredentialInput.PublicKey input) of
                                  (_, Some err) \<Rightarrow> Inl ErrInvalidPublicKey
                                | (fingerprint, None) \<Rightarrow> Inr (fingerprint, Some (clock env 0)))
                          else Inr ('''', None)) of
                      Inl err \<Rightarrow> (Inl err, rows)
                    | Inr (fingerprint, publicKeyAddedAt) \<Rightarrow>
                        (let environment =
                               (if CreateCredentialInput.Environment input = '''' then ''sandbox''
                                else CreateCredentialInput.Environment input);
                             credential =
                               \<lparr> ID = uuid_Nil,
                                 UserID = userID,
                                 ClientID = clientID,
                                 ClientSecret = clientSecret,
                                 ClientSecretPrefix = secretPrefix,
                                 PublicKey = CreateCredentialInput.PublicKey input,
                                 PublicKeyFingerprint = fingerprint,
                                 PublicKeyAddedAt = publicKeyAddedAt,
                                 PartnerName = CreateCredentialInput.PartnerName input,
                                 ChannelID = channelID,
                                 Environment = environment,
                                 CallbackURL = CreateCredentialInput.CallbackURL input,
                                 IPWhitelist = CreateCredentialInput.IPWhitelist input,
                                 IsActive = True,
                                 ExpiresAt = None,
                                 LastUsedAt = None,
                                 CreatedAt = 0,
                                 DeletedAt = None \<rparr>
                         in case Create (db_fault env 1) (new_uuid env) (clock env 1) rows credential of
                              Inl err \<Rightarrow> (Inl err, rows)
                            | Inr (rows', stored) \<Rightarrow>
                                (Inr \<lparr> PartnerCredentialCreateResponse.Response = ToResponse stored,
                                       PartnerCredentialCreateResponse.ClientSecret = clientSecret \<rparr>,
                                 rows')))))"

definition ListCredentials ::
  "environment \<Rightarrow> PartnerCredential list \<Rightarrow> uuid \<Rightarrow> error + PartnerCredentialResponse list" where
  "ListCredentials env rows userID =
     (case FindByUserID (db_fault env 0) rows userID of
        Inl err \<Rightarrow> Inl err
      | Inr credentials \<Rightarrow> Inr (map ToResponse credentials))"

definition UpdateCredential ::
  "environment \<Rightarrow> PartnerCredential list \<Rightarrow> uuid \<Rightarrow> uuid \<Rightarrow> UpdateCredentialInput \<Rightarrow>
     (error + PartnerCredentialResponse) \<times> PartnerCredential list" where
  "UpdateCredential env rows id' userID input =
     (case FindByIDAndUserID (db_fault env 0) rows id' userID of
        Inl err \<Rightarrow> (Inl ErrCredentialNotFound, rows)
      | Inr credential0 \<Rightarrow>
          (let credential1 =
                 (if UpdateCredentialInput.PartnerName input \<noteq> ''''
                  then credential0\<lparr>PartnerName := UpdateCredentialInput.PartnerName input\<rparr>
                  else credential0);
               credential2 =
                 (if UpdateCredentialInput.Environment input \<noteq> ''''
                  then credential1\<lparr>Environment := UpdateCredentialInput.Environment input\<rparr>
                  else credential1);
               credential =
                 credential2\<lparr>CallbackURL := UpdateCredentialInput.CallbackURL input,
                              IPWhitelist := UpdateCredentialInput.IPWhitelist input\<rparr>
           in case Update (db_fault env 1) rows credential of
                (Some err, rows') \<Rightarrow> (Inl err, rows')
              | (None, rows') \<Rightarrow> (Inr (ToResponse credential), rows')))"

definition DeleteCredential ::
  "environment \<Rightarrow> PartnerCredential list \<Rightarrow> uuid \<Rightarrow> uuid \<Rightarrow>
     error option \<times> PartnerCredential list" where
  "DeleteCredential env rows id' userID =
     (case FindByIDAndUserID (db_fault env 0) rows id' userID of
        Inl err \<Rightarrow> (Some ErrCredentialNotFound, rows)
      | Inr _ \<Rightarrow> Delete (db_fault env 1) (clock env 0) rows id' userID)"


definition ValidateCredential ::
  "environment \<Rightarrow> PartnerCredential list \<Rightarrow> string \<Rightarrow> string \<Rightarrow>
     (error + PartnerCredential) \<times> PartnerCredential list" where
  "ValidateCredential env rows clientID clientSecret =
     (case FindByClientID (db_fault env 0) rows clientID of
        Inl err \<Rightarrow> (Inl ErrCredentialNotFound, rows)
      | Inr credential \<Rightarrow>
          if ClientSecret credential \<noteq> clientSecret then (Inl ErrCredentialNotFound, rows)
          else (Inr credential, snd (UpdateLastUsed (db_fault env 1) (clock env 0) rows (ID credential))))"

section \<open>API key repository and service (unnamed/part\_000, unnamed/part\_002)\<close>

text \<open>
  The methods of \<^verbatim>\<open>APIKeyRepository\<close> carry the repository's name, since the partner
  credential repository has methods of the same names. The table of API keys has a primary
  key and no other unique index.
\<close>

definition APIKey_BeforeCreate :: "uuid \<Rightarrow> APIKey \<Rightarrow> APIKey" where
  "APIKey_BeforeCreate fresh k = (if APIKey.ID k = uuid_Nil then k\<lparr>APIKey.ID := fresh\<rparr> else k)"

definition APIKeyRepository_Create ::
  "string option \<Rightarrow> uuid \<Rightarrow> time \<Rightarrow> APIKey list \<Rightarrow> APIKey \<Rightarrow> error + (APIKey list \<times> APIKey)" where
  "APIKeyRepository_Create fault fresh now rows apiKey =
     (case fault of
        Some msg \<Rightarrow> Inl (Ext msg)
      | None \<Rightarrow>
          (let row = (APIKey_BeforeCreate fresh apiKey)\<lparr>APIKey.CreatedAt := now\<rparr>
           in if list_ex (\<lambda>r. APIKey.ID r = APIKey.ID row) rows
              then Inl (Ext ''duplicate key value violates unique constraint'')
              else Inr (rows @ [row], row)))"

definition APIKeyRepository_FindByID ::
  "string option \<Rightarrow> APIKey list \<Rightarrow> uuid \<Rightarrow> error + APIKey" where
  "APIKeyRepository_FindByID fault rows id' =
     (case fault of
        Some msg \<Rightarrow> Inl (Ext msg)
      | None \<Rightarrow>
          First APIKey.ID (filter (\<lambda>r. APIKey.ID r = id' \<and> APIKey.DeletedAt r = None) rows))"

definition APIKeyRepository_FindByUserID ::
  "string option \<Rightarrow> APIKey list \<Rightarrow> uuid \<Rightarrow> error + APIKey list" where
  "APIKeyRepository_FindByUserID fault rows userID =
     (case fault of
        Some msg \<Rightarrow> Inl (Ext msg)
      | None \<Rightarrow>
          Inr (sort_key (\<lambda>r. - APIKey.CreatedAt r)
                 (filter (\<lambda>r. APIKey.UserID r = userID \<and> APIKey.IsActive r \<and>
                               APIKey.DeletedAt r = None) rows)))"

definition APIKeyRepository_Revoke ::
  "string option \<Rightarrow> APIKey list \<Rightarrow> uuid \<Rightarrow> uuid \<Rightarrow> error option \<times> APIKey list" where
  "APIKeyRepository_Revoke fault rows id' userID =
     (case fault of
        Some msg \<Rightarrow> (Some (Ext msg), rows)
      | None \<Rightarrow>
          (None, map (\<lambda>r. if APIKey.ID r = id' \<and> APIKey.UserID r = userID \<and>
                             APIKey.DeletedAt r = None
                          then r\<lparr>APIKey.IsActive := False\<rparr> else r) rows))"

definition APIKeyRepository_CountByUserID ::
  "string option \<Rightarrow> APIKey list \<Rightarrow> uuid \<Rightarrow> error + int" where
  "APIKeyRepository_CountByUserID fault rows userID =
     (case fault of
        Some msg \<Rightarrow> Inl (Ext msg)
      | None \<Rightarrow>
          Inr (int (length (filter (\<lambda>r. APIKey.UserID r = userID \<and> APIKey.IsActive r \<and>
                                          APIKey.DeletedAt r = None) rows))))"

definition APIKey_ToResponse :: "APIKey \<Rightarrow> APIKeyResponse" where
  "APIKey_ToResponse k =
     \<lparr> APIKeyResponse.ID = APIKey.ID k,
       APIKeyResponse.Name = APIKey.Name k,
       APIKeyResponse.KeyPrefix = APIKey.KeyPrefix k,
       APIKeyResponse.Environment = APIKey.Environment k,
       APIKeyResponse.IsActive = APIKey.IsActive k,
       APIKeyResponse.LastUsedAt = APIKey.LastUsedAt k,
       APIKeyResponse.ExpiresAt = APIKey.ExpiresAt k,
       APIKeyResponse.CreatedAt = APIKey.CreatedAt k \<rparr>"

definition MaxAPIKeysPerUser :: int where
  "MaxAPIKeysPerUser = 10"

definition ListKeys :: "environment \<Rightarrow> APIKey list \<Rightarrow> uuid \<Rightarrow> error + APIKeyResponse list" where
  "ListKeys env rows userID =
     (case APIKeyRepository_FindByUserID (db_fault env 0) rows userID of
        Inl err \<Rightarrow> Inl err
      | Inr keys \<Rightarrow> Inr (map APIKey_ToResponse keys))"

text \<open>
  \<^verbatim>\<open>bcrypt.GenerateFromPassword\<close> is a parameter of \<^verbatim>\<open>CreateKey\<close>: it returns the hash
  (\<open>Inr\<close>) or reports an error (\<open>Inl\<close>).
\<close>

definition CreateKey ::
  "(string \<Rightarrow> string + string) \<Rightarrow> environment \<Rightarrow> APIKey list \<Rightarrow> uuid \<Rightarrow> CreateKeyInput \<Rightarrow>
     (error + APIKeyCreateResponse) \<times> APIKey list" where
  "CreateKey bcrypt_GenerateFromPassword env rows userID input =
     (case APIKeyRepository_CountByUserID (db_fault env 0) rows userID of
        Inl err \<Rightarrow> (Inl err, rows)
      | Inr count \<Rightarrow>
          if count \<ge> MaxAPIKeysPerUser then (Inl ErrMaxKeysReached, rows)
          else case GenerateAPIKey (entropy env 0) of
            (_, _, Some err) \<Rightarrow> (Inl err, rows)
          | (fullKey, prefix, None) \<Rightarrow>
              (case bcrypt_GenerateFromPassword fullKey of
                 Inl msg \<Rightarrow> (Inl (Ext msg), rows)
               | Inr keyHash \<Rightarrow>
                   (let apiKey =
                          \<lparr> APIKey.ID = uuid_Nil,
                            APIKey.UserID = userID,
                            APIKey.Name = CreateKeyInput.Name input,
                            APIKey.KeyPrefix = prefix,
                            APIKey.KeyHash = keyHash,
                            APIKey.Environment = CreateKeyInput.Environment input,
                            APIKey.IsActive = True,
                            APIKey.LastUsedAt = None,
                            APIKey.ExpiresAt = None,
                            APIKey.CreatedAt = 0,
                            APIKey.DeletedAt = None \<rparr>
                    in case APIKeyRepository_Create (db_fault env 1) (new_uuid env) (clock env 0)
                              rows apiKey of
                         Inl err \<Rightarrow> (Inl err, rows)
                       | Inr (rows', stored) \<Rightarrow>
                           (Inr \<lparr> APIKeyCreateResponse.Response = APIKey_ToResponse stored,
                                  APIKeyCreateResponse.Key = fullKey \<rparr>,
                            rows'))))"

definition RevokeKey ::
  "environment \<Rightarrow> APIKey list \<Rightarrow> uuid \<Rightarrow> uuid \<Rightarrow> error option \<times> APIKey list" where
  "RevokeKey env rows keyID userID =
     (case APIKeyRepository_FindByID (db_fault env 0) rows keyID of
        Inl err \<Rightarrow> (Some ErrKeyNotFound, rows)
      | Inr key \<Rightarrow>
          if APIKey.UserID key \<noteq> userID then (Some ErrKeyNotFound, rows)
          else APIKeyRepository_Revoke (db_fault env 1) rows keyID userID)"

section \<open>Signed tokens: the JWT library as the source uses it\<close>

text \<open>
  The source calls \<^verbatim>\<open>jwt.Parse\<close>, \<^verbatim>\<open>jwt.NewWithClaims\<close> and \<^verbatim>\<open>SignedString\<close> of golang-jwt
  (v5) and \<^verbatim>\<open>uuid.Parse\<close>. Their control flow is written out here; the codecs and the MAC
  are parameters.

  A signing method is one of the methods the library registers: the HMAC family
  (HS256, HS384, HS512) and, outside it, RSA, RSA-PSS, ECDSA, Ed25519 and \<^verbatim>\<open>none\<close>.
  \<^verbatim>\<open>MapClaims\<close> maps claim names to JSON values; a JSON number is modelled as a whole
  number, which is what the issuer writes (fractions are not modelled).
\<close>

datatype hash_alg = SHA256 | SHA384 | SHA512

datatype SigningMethod =
    SigningMethodHMAC hash_alg
  | SigningMethodRSA hash_alg
  | SigningMethodRSAPSS hash_alg
  | SigningMethodECDSA hash_alg
  | SigningMethodEd25519
  | SigningMethodNone

definition SigningMethodHS256 :: SigningMethod where
  "SigningMethodHS256 = SigningMethodHMAC SHA256"

datatype claim_value = String string | Number int | Bool bool | Null

type_synonym MapClaims = "string \<rightharpoonup> claim_value"

text \<open>
  A decoded token: its method (from the \<^verbatim>\<open>alg\<close> header), its claims, the signing string
  (the first two segments of the compact form) and the decoded signature.
\<close>

record Token =
  Method :: SigningMethod
  Claims :: MapClaims
  SigningInput :: string
  Signature :: "byte list"

text \<open>
  The parameters: \<open>ParseUnverified\<close> splits the compact form into its three segments,
  decodes them and looks the \<^verbatim>\<open>alg\<close> header up among the registered methods (\<open>None\<close>
  when any of this fails); \<open>SigningString\<close> encodes header and claims; \<open>EncodeSegment\<close> is
  base64url; \<open>hmac_Sum\<close> is the HMAC of a message under a key; \<open>uuid_Parse\<close> and
  \<open>uuid_String\<close> convert identities.
\<close>

record authlib =
  ParseUnverified :: "string \<Rightarrow> Token option"
  SigningString :: "SigningMethod \<Rightarrow> MapClaims \<Rightarrow> string"
  EncodeSegment :: "byte list \<Rightarrow> string"
  hmac_Sum :: "hash_alg \<Rightarrow> string \<Rightarrow> string \<Rightarrow> byte list"
  uuid_Parse :: "string \<Rightarrow> uuid option"
  uuid_String :: "uuid \<Rightarrow> string"

text \<open>
  \<^verbatim>\<open>Method.Verify\<close> and \<^verbatim>\<open>Method.Sign\<close> for a key that is a byte slice, which is what both
  key functions of the source return and what \<^verbatim>\<open>SignedString\<close> is given. An HMAC method
  compares the signature with the MAC of the signing string. Every other method wants a key
  of its own type (a public key, or the constant \<^verbatim>\<open>UnsafeAllowNoneSignatureType\<close> for
  \<^verbatim>\<open>none\<close>) and rejects a byte slice.
\<close>

definition Verify :: "authlib \<Rightarrow> SigningMethod \<Rightarrow> string \<Rightarrow> byte list \<Rightarrow> string \<Rightarrow> error option" where
  "Verify lib method signingString sig key =
     (case method of
        SigningMethodHMAC h \<Rightarrow>
          if sig = hmac_Sum lib h key signingString then None
          else Some (Ext ''signature is invalid'')
      | SigningMethodNone \<Rightarrow> Some (Ext ''none signing method not allowed'')
      | _ \<Rightarrow> Some (Ext ''key is of invalid type''))"

definition Sign :: "authlib \<Rightarrow> SigningMethod \<Rightarrow> string \<Rightarrow> string \<Rightarrow> error + byte list" where
  "Sign lib method signingString key =
     (case method of
        SigningMethodHMAC h \<Rightarrow> Inr (hmac_Sum lib h key signingString)
      | SigningMethodNone \<Rightarrow> Inl (Ext ''none signing method not allowed'')
      | _ \<Rightarrow> Inl (Ext ''key is of invalid type''))"

definition SignedString :: "authlib \<Rightarrow> SigningMethod \<Rightarrow> MapClaims \<Rightarrow> string \<Rightarrow> error + string" where
  "SignedString lib method claims key =
     (let sstr = SigningString lib method claims
      in case Sign lib method sstr key of
           Inl err \<Rightarrow> Inl err
         | Inr sig \<Rightarrow> Inr (sstr @ ''.'' @ EncodeSegment lib sig))"

text \<open>
  Times are nanoseconds since the epoch; \<^verbatim>\<open>Unix()\<close> is the whole seconds. A machine
  \<^verbatim>\<open>int\<close> and a \<^verbatim>\<open>time.Duration\<close> are 64-bit: products wrap.
\<close>

definition time_Unix :: "time \<Rightarrow> int" where
  "time_Unix t = t div 1000000000"

definition time_Add :: "time \<Rightarrow> int \<Rightarrow> time" where
  "time_Add t d = t + d"

definition wrap64 :: "int \<Rightarrow> int" where
  "wrap64 x = (x + 2 ^ 63) mod 2 ^ 64 - 2 ^ 63"

definition time_Hour :: int where
  "time_Hour = 3600000000000"

text \<open>
  The validator of the library with its default options: \<^verbatim>\<open>exp\<close> and \<^verbatim>\<open>nbf\<close> are checked
  when present (a numeric date that is zero counts as absent, a value that is not a number
  is an error); the token is valid at \<open>now\<close> when \<open>now\<close> is before \<^verbatim>\<open>exp\<close> and not before
  \<^verbatim>\<open>nbf\<close>.
\<close>

definition parseNumericDate :: "MapClaims \<Rightarrow> string \<Rightarrow> error + int option" where
  "parseNumericDate m key =
     (case m key of
        None \<Rightarrow> Inr None
      | Some (Number n) \<Rightarrow> if n = 0 then Inr None else Inr (Some n)
      | Some _ \<Rightarrow> Inl (Ext (key @ '' is invalid'')))"

definition Validate :: "time \<Rightarrow> MapClaims \<Rightarrow> error option" where
  "Validate now claims =
     (case parseNumericDate claims ''exp'' of
        Inl err \<Rightarrow> Some err
      | Inr exp \<Rightarrow>
          if (case exp of None \<Rightarrow> False | Some e \<Rightarrow> \<not> now < e * 1000000000)
          then Some (Ext ''token is expired'')
          else case parseNumericDate claims ''nbf'' of
            Inl err \<Rightarrow> Some err
          | Inr nbf \<Rightarrow>
              if (case nbf of None \<Rightarrow> False | Some n \<Rightarrow> now < n * 1000000000)
              then Some (Ext ''token is not valid yet'')
              else None)"

text \<open>
  \<^verbatim>\<open>jwt.Parse(tokenString, keyFunc)\<close> at time \<open>now\<close>: decode, ask the key function for the
  key, verify the signature with the token's own method, validate the claims. \<open>Inr token\<close>
  stands for a nil error with \<^verbatim>\<open>token.Valid\<close> set; the library sets \<^verbatim>\<open>Valid\<close> exactly when
  it returns no error.
\<close>

definition jwt_Parse ::
  "authlib \<Rightarrow> time \<Rightarrow> string \<Rightarrow> (Token \<Rightarrow> error + string) \<Rightarrow> error + Token" where
  "jwt_Parse lib now tokenString keyFunc =
     (case ParseUnverified lib tokenString of
        None \<Rightarrow> Inl (Ext ''token is malformed'')
      | Some token \<Rightarrow>
          (case keyFunc token of
             Inl err \<Rightarrow> Inl (Ext ''error while executing keyfunc'')
           | Inr key \<Rightarrow>
               (case Verify lib (Method token) (SigningInput token) (Signature token) key of
                  Some err \<Rightarrow> Inl (Ext ''token signature is invalid'')
                | None \<Rightarrow>
                    (case Validate now (Claims token) of
                       Some err \<Rightarrow> Inl err
                     | None \<Rightarrow> Inr token))))"

section \<open>Bearer-token middleware (internal/middleware/jwt\_auth.go)\<close>

text \<open>
  \<^verbatim>\<open>strings.Split(s, " ")\<close> cuts at every separator, so \<open>n\<close> separators give \<open>n + 1\<close>
  parts. \<^verbatim>\<open>strings.ToLower\<close> is modelled on bytes: the letters A to Z are mapped, every
  other byte is kept; on ASCII input this is the library function, and on any input the
  result is \<^verbatim>\<open>bearer\<close> exactly when the library's is (no character outside ASCII has one of
  the letters of \<^verbatim>\<open>bearer\<close> as its lower case).
\<close>

fun strings_Split :: "char \<Rightarrow> string \<Rightarrow> string list" where
  "strings_Split sep [] = [[]]"
| "strings_Split sep (c # cs) =
     (if c = sep then [] # strings_Split sep cs
      else (case strings_Split sep cs of [] \<Rightarrow> [[c]] | p # ps \<Rightarrow> (c # p) # ps))"

definition strings_ToLower :: "string \<Rightarrow> string" where
  "strings_ToLower s =
     map (\<lambda>c. case map_of (zip ''ABCDEFGHIJKLMNOPQRSTUVWXYZ'' ''abcdefghijklmnopqrstuvwxyz'') c of
                None \<Rightarrow> c | Some l \<Rightarrow> l) s"

text \<open>
  The handler either answers with a status and a JSON body with the fields \<^verbatim>\<open>error\<close> and
  \<^verbatim>\<open>message\<close>, or stores \<^verbatim>\<open>userID\<close> and \<^verbatim>\<open>email\<close> in the request's locals and calls the next
  handler. \<open>authHeader\<close> is \<^verbatim>\<open>c.Get("Authorization")\<close>, empty when the header is missing.
  The type assertion of \<^verbatim>\<open>token.Claims\<close> to \<^verbatim>\<open>jwt.MapClaims\<close> always holds for \<^verbatim>\<open>jwt.Parse\<close>,
  so its failure branch has no counterpart.
\<close>

datatype handler_result =
    JSON nat string string
  | Next uuid "claim_value option"

definition StatusUnauthorized :: nat where
  "StatusUnauthorized = 401"

text \<open>The key function that \<^verbatim>\<open>JWTAuth\<close> passes to \<^verbatim>\<open>jwt.Parse\<close>.\<close>

definition JWTAuth_keyFunc :: "string \<Rightarrow> Token \<Rightarrow> error + string" where
  "JWTAuth_keyFunc secret token =
     (case Method token of
        SigningMethodHMAC _ \<Rightarrow> Inr secret
      | _ \<Rightarrow> Inl (ErrorsNew ''Invalid signing method''))"

definition JWTAuth :: "authlib \<Rightarrow> string \<Rightarrow> time \<Rightarrow> string \<Rightarrow> handler_result" where
  "JWTAuth lib secret now authHeader =
     (if authHeader = ''''
      then JSON StatusUnauthorized ''Unauthorized'' ''Missing authorization header''
      else let parts = strings_Split CHR '' '' authHeader in
        if length parts \<noteq> 2 \<or> strings_ToLower (parts ! 0) \<noteq> ''bearer''
        then JSON StatusUnauthorized ''Unauthorized'' ''Invalid authorization header format''
        else let tokenString = parts ! 1 in
          case jwt_Parse lib now tokenString (JWTAuth_keyFunc secret) of
            Inl err \<Rightarrow> JSON StatusUnauthorized ''Unauthorized'' ''Invalid or expired token''
          | Inr token \<Rightarrow>
              (case Claims token ''type'' of
                 Some (String tokenType) \<Rightarrow>
                   if tokenType \<noteq> ''access''
                   then JSON StatusUnauthorized ''Unauthorized'' ''Invalid token type''
                   else (case Claims token ''sub'' of
                           Some (String userIDStr) \<Rightarrow>
                             (case uuid_Parse lib userIDStr of
                                None \<Rightarrow>
                                  JSON StatusUnauthorized ''Unauthorized'' ''Invalid user ID format''
                              | Some userID \<Rightarrow> Next userID (Claims token ''email''))
                         | _ \<Rightarrow>
                             JSON StatusUnauthorized ''Unauthorized'' ''Invalid user ID in token'')
               | _ \<Rightarrow> JSON StatusUnauthorized ''Unauthorized'' ''Invalid token type''))"

section \<open>Token issuance and refresh (internal/services/auth\_service.go)\<close>

record Config =
  JWTSecret :: string
  JWTExpiryHours :: int

record AuthResponse =
  AccessToken :: string
  RefreshToken :: string
  ExpiresIn :: int
  User :: UserResponse

definition User_ToResponse :: "User \<Rightarrow> UserResponse" where
  "User_ToResponse u =
     \<lparr> UserResponse.ID = User.ID u,
       UserResponse.Email = User.Email u,
       UserResponse.FullName = User.FullName u,
       UserResponse.JobTitle = User.JobTitle u,
       UserResponse.Company = User.Company u,
       UserResponse.Provider = User.Provider u,
       UserResponse.IsVerified = User.IsVerified u,
       UserResponse.CreatedAt = User.CreatedAt u \<rparr>"

definition UserRepository_FindByID :: "string option \<Rightarrow> User list \<Rightarrow> uuid \<Rightarrow> error + User" where
  "UserRepository_FindByID fault rows id' =
     (case fault of
        Some msg \<Rightarrow> Inl (Ext msg)
      | None \<Rightarrow> First User.ID (filter (\<lambda>r. User.ID r = id' \<and> User.DeletedAt r = None) rows))"

text \<open>
  \<^verbatim>\<open>generateAuthResponse\<close> reads the clock four times: for the two expiry times and for the
  two \<^verbatim>\<open>iat\<close> claims, in this order. Its local values \<^verbatim>\<open>accessExpiry\<close> and
  \<^verbatim>\<open>refreshExpiry\<close> and the two \<^verbatim>\<open>jwt.MapClaims\<close> literals are named definitions here.
\<close>

definition accessExpiry :: "Config \<Rightarrow> environment \<Rightarrow> time" where
  "accessExpiry cfg env = time_Add (clock env 0) (wrap64 (JWTExpiryHours cfg * time_Hour))"

definition refreshExpiry :: "Config \<Rightarrow> environment \<Rightarrow> time" where
  "refreshExpiry cfg env =
     time_Add (clock env 1) (wrap64 (wrap64 (JWTExpiryHours cfg * 7) * time_Hour))"

definition accessTokenClaims :: "authlib \<Rightarrow> Config \<Rightarrow> environment \<Rightarrow> User \<Rightarrow> MapClaims" where
  "accessTokenClaims lib cfg env user =
     [''sub'' \<mapsto> String (uuid_String lib (User.ID user)),
      ''email'' \<mapsto> String (User.Email user),
      ''type'' \<mapsto> String ''access'',
      ''exp'' \<mapsto> Number (time_Unix (accessExpiry cfg env)),
      ''iat'' \<mapsto> Number (time_Unix (clock env 2))]"

definition refreshTokenClaims :: "authlib \<Rightarrow> Config \<Rightarrow> environment \<Rightarrow> User \<Rightarrow> MapClaims" where
  "refreshTokenClaims lib cfg env user =
     [''sub'' \<mapsto> String (uuid_String lib (User.ID user)),
      ''type'' \<mapsto> String ''refresh'',
      ''exp'' \<mapsto> Number (time_Unix (refreshExpiry cfg env)),
      ''iat'' \<mapsto> Number (time_Unix (clock env 3))]"

definition generateAuthResponse :: "authlib \<Rightarrow> Config \<Rightarrow> environment \<Rightarrow> User \<Rightarrow> error + AuthResponse" where
  "generateAuthResponse lib cfg env user =
     (let expiryHours = JWTExpiryHours cfg
      in case SignedString lib SigningMethodHS256 (accessTokenClaims lib cfg env user)
                (JWTSecret cfg) of
           Inl err \<Rightarrow> Inl err
         | Inr accessTokenString \<Rightarrow>
             (case SignedString lib SigningMethodHS256 (refreshTokenClaims lib cfg env user)
                     (JWTSecret cfg) of
                Inl err \<Rightarrow> Inl err
              | Inr refreshTokenString \<Rightarrow>
                  Inr \<lparr> AccessToken = accessTokenString,
                        RefreshToken = refreshTokenString,
                        ExpiresIn = wrap64 (expiryHours * 3600),
                        User = User_ToResponse user \<rparr>))"

text \<open>
  \<^verbatim>\<open>AuthService.RefreshToken\<close>, verifying at time \<open>now\<close>. Its key function returns the secret
  for every token. The surroundings \<open>env\<close> give the outcome of the user lookup and the clock
  readings of the issuance.
\<close>

definition RefreshToken_keyFunc :: "Config \<Rightarrow> Token \<Rightarrow> error + string" where
  "RefreshToken_keyFunc cfg token = Inr (JWTSecret cfg)"

definition AuthService_RefreshToken ::
  "authlib \<Rightarrow> Config \<Rightarrow> environment \<Rightarrow> time \<Rightarrow> User list \<Rightarrow> string \<Rightarrow> error + AuthResponse" where
  "AuthService_RefreshToken lib cfg env now users refreshToken =
     (case jwt_Parse lib now refreshToken (RefreshToken_keyFunc cfg) of
        Inl err \<Rightarrow> Inl (ErrorsNew ''invalid refresh token'')
      | Inr token \<Rightarrow>
          (case Claims token ''type'' of
             Some (String tokenType) \<Rightarrow>
               if tokenType \<noteq> ''refresh'' then Inl (ErrorsNew ''invalid token type'')
               else (case Claims token ''sub'' of
                       Some (String userIDStr) \<Rightarrow>
                         (case uuid_Parse lib userIDStr of
                            None \<Rightarrow> Inl (ErrorsNew ''invalid user ID format'')
                          | Some userID \<Rightarrow>
                              (case UserRepository_FindByID (db_fault env 0) users userID of
                                 Inl err \<Rightarrow> Inl ErrUserNotFound
                               | Inr user \<Rightarrow> generateAuthResponse lib cfg env user))
                     | _ \<Rightarrow> Inl (ErrorsNew ''invalid user ID in token''))
           | _ \<Rightarrow> Inl (ErrorsNew ''invalid token type'')))"

section \<open>Sample data\<close>

text \<open>
  A stored partner credential, an API key and a user, and surroundings in which every
  database statement runs, the entropy source delivers the byte \<^verbatim>\<open>0xa7\<close> and the clock
  stands at 1700000000 seconds.
\<close>

definition sample_credential :: PartnerCredential where
  "sample_credential =
     \<lparr> ID = 1,
       UserID = 7,
       ClientID = ''BAS00112233445566778899aabbccdde'',
       ClientSecret = ''c8c9cacbcccdcecfd0d1d2d3d4d5d6d7d8d9dadbdcdddedfe0e1e2e3e4e5e6e7'',
       ClientSecretPrefix = ''c8c9cacb...'',
       PublicKey = '''',
       PublicKeyFingerprint = '''',
       PublicKeyAddedAt = None,
       PartnerName = ''Acme'',
       ChannelID = ''CH0011223344556677'',
       Environment = ''sandbox'',
       CallbackURL = ''https://acme.example/cb'',
       IPWhitelist = Some [''10.0.0.1''],
       IsActive = True,
       ExpiresAt = None,
       LastUsedAt = None,
       CreatedAt = 1690000000000000000,
       DeletedAt = None \<rparr>"

definition sample_env :: environment where
  "sample_env =
     \<lparr> db_fault = (\<lambda>k. None),
       entropy = (\<lambda>k. RandBytes (\<lambda>i. 0xa7)),
       clock = (\<lambda>k. 1700000000000000000),
       new_uuid = 99 \<rparr>"

definition fresh_secret :: string where
  "fresh_secret = ''a7a7a7a7a7a7a7a7a7a7a7a7a7a7a7a7a7a7a7a7a7a7a7a7a7a7a7a7a7a7a7a7''"


definition sample_env_second_statement_fails :: environment where
  "sample_env_second_statement_fails =
     sample_env\<lparr>db_fault := (\<lambda>k. if k = 1 then Some ''connection reset'' else None)\<rparr>"





definition sample_update :: UpdateCredentialInput where
  "sample_update =
     \<lparr> UpdateCredentialInput.PartnerName = '''',
       UpdateCredentialInput.Environment = ''production'',
       UpdateCredentialInput.CallbackURL = '''',
       UpdateCredentialInput.IPWhitelist = None \<rparr>"

text \<open>
  A stand-in for the PEM and X.509 routines that knows two inputs: a \<^verbatim>\<open>PUBLIC KEY\<close> block
  whose bytes parse, and a \<^verbatim>\<open>CERTIFICATE\<close> block.
\<close>

definition sample_x509lib :: x509lib where
  "sample_x509lib =
     \<lparr> pem_Decode = (\<lambda>s. if s = ''-----BEGIN PUBLIC KEY-----'' then
                            Some \<lparr> Type = ''PUBLIC KEY'', Bytes = [0x30, 0x82] \<rparr>
                          else if s = ''-----BEGIN CERTIFICATE-----'' then
                            Some \<lparr> Type = ''CERTIFICATE'', Bytes = [0x30, 0x82] \<rparr>
                          else None),
       ParsePKIXPublicKey = (\<lambda>der. der = [0x30, 0x82]),
       ParsePKCS1PublicKey = (\<lambda>der. False),
       sha256_Sum256 = (\<lambda>der i. 0xa7) \<rparr>"

text \<open>A stored API key, inputs of the two creation calls, and a stand-in for bcrypt.\<close>

definition sample_key :: APIKey where
  "sample_key =
     \<lparr> APIKey.ID = 11,
       APIKey.UserID = 7,
       APIKey.Name = ''ci'',
       APIKey.KeyPrefix = ''bas_00112233'',
       APIKey.KeyHash = ''$2a$10$abcdefghijklmnopqrstuv'',
       APIKey.Environment = ''sandbox'',
       APIKey.IsActive = True,
       APIKey.LastUsedAt = None,
       APIKey.ExpiresAt = None,
       APIKey.CreatedAt = 1690000000000000000,
       APIKey.DeletedAt = None \<rparr>"

definition sample_key_input :: CreateKeyInput where
  "sample_key_input =
     \<lparr> CreateKeyInput.Name = ''deploy'', CreateKeyInput.Environment = ''production'' \<rparr>"

definition sample_bcrypt :: "string \<Rightarrow> string + string" where
  "sample_bcrypt password = Inr (''$2a$10$'' @ take 8 password)"

definition sample_create_input :: CreateCredentialInput where
  "sample_create_input =
     \<lparr> CreateCredentialInput.PartnerName = ''Acme'',
       CreateCredentialInput.Environment = '''',
       CreateCredentialInput.CallbackURL = '''',
       CreateCredentialInput.IPWhitelist = None,
       CreateCredentialInput.PublicKey = '''' \<rparr>"

text \<open>
  Five active partner credentials and ten active API keys of user 7, with distinct primary
  keys and client IDs.
\<close>

definition five_credentials :: "PartnerCredential list" where
  "five_credentials =
     map (\<lambda>i. sample_credential\<lparr>ID := of_nat i,
                                  ClientID := ''BAS0000000000000000000000000000'' @ [hextable ! i]\<rparr>)
       [1, 2, 3, 4, 5]"

definition ten_keys :: "APIKey list" where
  "ten_keys = map (\<lambda>i. sample_key\<lparr>APIKey.ID := of_nat i\<rparr>) [1, 2, 3, 4, 5, 6, 7, 8, 9, 10]"







text \<open>
  A user, a configuration with 24-hour access tokens, and a stand-in for the token and UUID
  codecs that knows three compact forms: the access and the refresh token issued to the
  user under the sample surroundings, and a token with the same claims as the access token
  and the method RS256.
\<close>

definition sample_user :: User where
  "sample_user =
     \<lparr> User.ID = 7,
       User.Email = ''a@b.com'',
       User.PasswordHash = ''$2a$10$abcdefghijklmnopqrstuv'',
       User.FullName = ''A B'',
       User.JobTitle = '''',
       User.Company = '''',
       User.Provider = ''local'',
       User.ProviderID = '''',
       User.IsVerified = False,
       User.CreatedAt = 1690000000000000000,
       User.DeletedAt = None \<rparr>"

definition sample_cfg :: Config where
  "sample_cfg = \<lparr> JWTSecret = ''default-secret-change-me'', JWTExpiryHours = 24 \<rparr>"

definition sample_access_claims :: MapClaims where
  "sample_access_claims =
     [''sub'' \<mapsto> String ''00000000-0000-0000-0000-000000000007'',
      ''email'' \<mapsto> String ''a@b.com'',
      ''type'' \<mapsto> String ''access'',
      ''exp'' \<mapsto> Number 1700086400,
      ''iat'' \<mapsto> Number 1700000000]"

definition sample_refresh_claims :: MapClaims where
  "sample_refresh_claims =
     [''sub'' \<mapsto> String ''00000000-0000-0000-0000-000000000007'',
      ''type'' \<mapsto> String ''refresh'',
      ''exp'' \<mapsto> Number 1700604800,
      ''iat'' \<mapsto> Number 1700000000]"

definition sample_authlib :: authlib where
  "sample_authlib =
     \<lparr> ParseUnverified =
         (\<lambda>s. if s = ''access.sig'' then
                  Some \<lparr> Method = SigningMethodHMAC SHA256, Claims = sample_access_claims,
                         SigningInput = ''access'', Signature = [1] \<rparr>
                else if s = ''refresh.sig'' then
                  Some \<lparr> Method = SigningMethodHMAC SHA256, Claims = sample_refresh_claims,
                         SigningInput = ''refresh'', Signature = [1] \<rparr>
                else if s = ''rs256.sig'' then
                  Some \<lparr> Method = SigningMethodRSA SHA256, Claims = sample_access_claims,
                         SigningInput = ''rs256'', Signature = [1] \<rparr>
                else None),
       SigningString = (\<lambda>m c. case c ''type'' of Some (String t) \<Rightarrow> t | _ \<Rightarrow> ''claims''),
       EncodeSegment = (\<lambda>sig. ''sig''),
       hmac_Sum = (\<lambda>h key msg. [1]),
       uuid_Parse = (\<lambda>s. if s = ''00000000-0000-0000-0000-000000000007'' then Some 7 else None),
       uuid_String = (\<lambda>u. if u = 7 then ''00000000-0000-0000-0000-000000000007''
                           else ''ffffffff-ffff-ffff-ffff-ffffffffffff'') \<rparr>"




section \<open>Properties of the secret generator\<close>

lemma length_hex_EncodeToString: "length (hex_EncodeToString bs) = 2 * length bs"
  by (induction bs) auto

lemma high_nibble_less: "unat (drop_bit 4 (b :: byte)) < 16"
proof -
  have "unat b < 2 ^ 8"
    using unsigned_less [of b] by simp
  then have "unat b div 16 < 16"
    by simp
  then show ?thesis
    by (simp add: unat_drop_bit_eq drop_bit_eq_div unat_div)
qed

lemma low_nibble_less: "unat ((b :: byte) AND 0x0f) < 16"
proof -
  have "b AND 0x0f \<le> 0x0f"
    by (rule word_and_le1)
  then have "unat (b AND 0x0f) \<le> unat (0x0f :: byte)"
    by (simp add: word_le_nat_alt)
  then show ?thesis by simp
qed

lemma hextable_digit: "i < 16 \<Longrightarrow> hextable ! i \<in> set ''0123456789abcdef''"
proof -
  assume "i < 16"
  then have "i < length hextable"
    by (simp add: hextable_def)
  then have "hextable ! i \<in> set hextable"
    by (rule nth_mem)
  then show ?thesis
    by (simp add: hextable_def)
qed

lemma lower_hex_EncodeToString: "lower_hex (hex_EncodeToString bs)"
  unfolding lower_hex_def
  by (induction bs)
     (simp_all add: hextable_digit high_nibble_less low_nibble_less del: set_simps)

lemma lower_hex_take: "lower_hex s \<Longrightarrow> lower_hex (take n s)"
  unfolding lower_hex_def list_all_iff
  by (blast dest: in_set_takeD)

lemma GenerateAPIKey_ok:
  "GenerateAPIKey (RandBytes f) = (fullKey, prefix, err) \<Longrightarrow>
     err = None \<and> take 4 fullKey = ''bas_'' \<and> length fullKey = 68 \<and>
     lower_hex (drop 4 fullKey) \<and> prefix = take 12 fullKey \<and> length prefix = 12"
  by (auto simp: GenerateAPIKey_def Let_def length_hex_EncodeToString lower_hex_EncodeToString)

lemma GenerateClientCredentials_ok:
  "GenerateClientCredentials (RandBytes f1) (RandBytes f2) =
     (clientID, clientSecret, secretPrefix, err) \<Longrightarrow>
     err = None \<and> length clientID = 32 \<and> take 3 clientID = ''BAS'' \<and>
     lower_hex (drop 3 clientID) \<and> length clientSecret = 64 \<and> lower_hex clientSecret \<and>
     secretPrefix = take 8 clientSecret @ ''...''"
  by (auto simp: GenerateClientCredentials_def Let_def length_hex_EncodeToString
      lower_hex_EncodeToString lower_hex_take)

lemma GenerateChannelID_ok:
  "GenerateChannelID (RandBytes g) = (channelID, err) \<Longrightarrow>
     err = None \<and> take 2 channelID = ''CH'' \<and> length channelID = 18 \<and>
     lower_hex (drop 2 channelID)"
  by (auto simp: GenerateChannelID_def length_hex_EncodeToString lower_hex_EncodeToString)

lemma generators_fail:
  "GenerateAPIKey (RandFail msg) = ('''', '''', Some (Ext msg))"
  "GenerateClientCredentials (RandFail msg) src2 = ('''', '''', '''', Some (Ext msg))"
  "GenerateClientCredentials (RandBytes f1) (RandFail msg) = ('''', '''', '''', Some (Ext msg))"
  "GenerateChannelID (RandFail msg) = ('''', Some (Ext msg))"
  by (simp_all add: GenerateAPIKey_def GenerateClientCredentials_def GenerateChannelID_def)

text \<open>
  Claim C7. Whenever the entropy source succeeds, every generated secret has its fixed
  format: the API key is \<^verbatim>\<open>bas_\<close> followed by 64 lowercase hex characters (68 in all) and
  its display prefix is its first 12 characters; the client ID is \<^verbatim>\<open>BAS\<close> followed by 29
  lowercase hex characters (32 in all), the client secret is 64 lowercase hex characters
  and the secret prefix is its first 8 characters followed by \<^verbatim>\<open>...\<close>; the channel ID
  is \<^verbatim>\<open>CH\<close> followed by 16 lowercase hex characters. Whenever a read of the entropy source
  fails (the only read, or the first or the second read of
  \<^verbatim>\<open>GenerateClientCredentials\<close>), the generator returns that error together with empty
  strings.
\<close>

theorem generated_secret_formats:
  "(case GenerateAPIKey (RandBytes f) of (fullKey, prefix, err) \<Rightarrow>
      err = None \<and> take 4 fullKey = ''bas_'' \<and> length fullKey = 68 \<and>
      lower_hex (drop 4 fullKey) \<and> prefix = take 12 fullKey \<and> length prefix = 12) \<and>
   (case GenerateClientCredentials (RandBytes f1) (RandBytes f2) of
      (clientID, clientSecret, secretPrefix, err) \<Rightarrow>
        err = None \<and> length clientID = 32 \<and> take 3 clientID = ''BAS'' \<and>
        lower_hex (drop 3 clientID) \<and> length clientSecret = 64 \<and> lower_hex clientSecret \<and>
        secretPrefix = take 8 clientSecret @ ''...'') \<and>
   (case GenerateChannelID (RandBytes g) of (channelID, err) \<Rightarrow>
      err = None \<and> take 2 channelID = ''CH'' \<and> length channelID = 18 \<and>
      lower_hex (drop 2 channelID)) \<and>
   GenerateAPIKey (RandFail msg) = ('''', '''', Some (Ext msg)) \<and>
   GenerateClientCredentials (RandFail msg) src2 = ('''', '''', '''', Some (Ext msg)) \<and>
   GenerateClientCredentials (RandBytes f1) (RandFail msg) = ('''', '''', '''', Some (Ext msg)) \<and>
   GenerateChannelID (RandFail msg) = ('''', Some (Ext msg))"
proof -
  obtain k p e where a: "GenerateAPIKey (RandBytes f) = (k, p, e)"
    by (metis prod_cases3)
  obtain c s sp e' where b:
    "GenerateClientCredentials (RandBytes f1) (RandBytes f2) = (c, s, sp, e')"
    by (metis prod_cases4)
  obtain ch e'' where d: "GenerateChannelID (RandBytes g) = (ch, e'')"
    by (metis prod.exhaust)
  show ?thesis
    using GenerateAPIKey_ok [OF a] GenerateClientCredentials_ok [OF b]
      GenerateChannelID_ok [OF d]
    by (simp add: a b d generators_fail)
qed

theorem generated_secret_formats_witness:
  "GenerateChannelID (RandBytes (\<lambda>i. 0xa7)) = (''CHa7a7a7a7a7a7a7a7'', None) \<and>
   lower_hex (drop 2 ''CHa7a7a7a7a7a7a7a7'') \<and>
   GenerateAPIKey (RandFail ''entropy'') = ('''', '''', Some (Ext ''entropy''))"
proof -
  have v: "GenerateChannelID (RandBytes (\<lambda>i. 0xa7)) = (''CHa7a7a7a7a7a7a7a7'', None)"
    by (simp add: GenerateChannelID_def hextable_def upt_rec [of _ "numeral _"]
        drop_bit_eq_div)
  show ?thesis
    using generated_secret_formats [of "\<lambda>i. 0" "\<lambda>i. 0" "\<lambda>i. 0" "\<lambda>i. 0xa7"
        "''entropy''" "RandFail ''x''"]
    by (simp add: v)
qed

section \<open>Properties of the partner credential service\<close>

lemma First_Inr_mem: "First pk rs = Inr x \<Longrightarrow> x \<in> set rs"
proof (cases rs)
  case Nil
  then show "First pk rs = Inr x \<Longrightarrow> x \<in> set rs" by (simp add: First_def)
next
  case (Cons a list)
  assume "First pk rs = Inr x"
  then have "x = arg_min_list pk rs"
    using Cons by (simp add: First_def del: arg_min_list.simps)
  moreover have "rs \<noteq> []" using Cons by simp
  ultimately show "x \<in> set rs"
    by (simp add: arg_min_list_in del: arg_min_list.simps)
qed

lemma First_Inl: "First pk rs = Inl e \<Longrightarrow> rs = [] \<and> e = ErrRecordNotFound"
  unfolding First_def by (cases rs) auto

lemma First_single: "First pk [x] = Inr x"
  by (simp add: First_def)

lemma FindByIDAndUserID_Inr:
  "FindByIDAndUserID fault rows id' userID = Inr c \<Longrightarrow>
     fault = None \<and> c \<in> set rows \<and> ID c = id' \<and> UserID c = userID \<and> DeletedAt c = None"
  unfolding FindByIDAndUserID_def
  by (auto split: option.splits dest!: First_Inr_mem)

lemma pk_unique:
  "distinct (map f rows) \<Longrightarrow> x \<in> set rows \<Longrightarrow> y \<in> set rows \<Longrightarrow> f x = f y \<Longrightarrow> x = y"
  by (meson distinct_map inj_onD)



lemma FindByClientID_Inr:
  "FindByClientID fault rows clientID = Inr c \<Longrightarrow>
     fault = None \<and> c \<in> set rows \<and> ClientID c = clientID \<and> IsActive c \<and> DeletedAt c = None"
  unfolding FindByClientID_def
  by (auto split: option.splits dest!: First_Inr_mem)

text \<open>
  Claim C4. \<^verbatim>\<open>ValidateCredential\<close> returns the one error \<open>ErrCredentialNotFound\<close>, and leaves
  the table as it was, when the lookup by client ID fails (for any reason), in particular
  when no active, undeleted row has the client ID, and when the row is found but its stored
  secret differs from the presented one. When the row is found and the secret matches, the
  credential is returned whatever the outcome of the update of the last-used stamp; when
  that update reports an error the result is still the credential.
\<close>

theorem ValidateCredential_fails_closed:
  "(FindByClientID (db_fault env 0) rows clientID = Inl e \<longrightarrow>
      ValidateCredential env rows clientID clientSecret = (Inl ErrCredentialNotFound, rows)) \<and>
   (\<not> list_ex (\<lambda>r. ClientID r = clientID \<and> IsActive r \<and> DeletedAt r = None) rows \<longrightarrow>
      ValidateCredential env rows clientID clientSecret = (Inl ErrCredentialNotFound, rows)) \<and>
   (FindByClientID (db_fault env 0) rows clientID = Inr c \<and> ClientSecret c \<noteq> clientSecret \<longrightarrow>
      ValidateCredential env rows clientID clientSecret = (Inl ErrCredentialNotFound, rows)) \<and>
   (FindByClientID (db_fault env 0) rows clientID = Inr c \<and> ClientSecret c = clientSecret \<longrightarrow>
      fst (ValidateCredential env rows clientID clientSecret) = Inr c \<and>
      (db_fault env 1 \<noteq> None \<longrightarrow>
         ValidateCredential env rows clientID clientSecret = (Inr c, rows)))"
proof -
  have miss: "ValidateCredential env rows clientID clientSecret = (Inl ErrCredentialNotFound, rows)"
    if "\<not> list_ex (\<lambda>r. ClientID r = clientID \<and> IsActive r \<and> DeletedAt r = None) rows"
  proof (cases "FindByClientID (db_fault env 0) rows clientID")
    case (Inl a)
    then show ?thesis by (simp add: ValidateCredential_def)
  next
    case (Inr b)
    from FindByClientID_Inr [OF this] that show ?thesis
      by (auto simp: list_ex_iff)
  qed
  show ?thesis
    using miss by (auto simp: ValidateCredential_def UpdateLastUsed_def)
qed

lemma Update_stored:
  "c \<in> set rows \<Longrightarrow> ID credential = ID c \<Longrightarrow>
     Update None rows credential =
       (None, map (\<lambda>r. if ID r = ID c then credential else r) rows)"
  by (auto simp: Update_def list_ex_iff)

text \<open>
  Claim C10. For a credential \<open>old\<close> found by ID and owner, \<^verbatim>\<open>UpdateCredential\<close> builds
  the value \<open>new\<close>: \<open>PartnerName\<close> and \<open>Environment\<close> are taken from the input only when the
  input field is not empty, \<open>CallbackURL\<close> and \<open>IPWhitelist\<close> are always taken from the
  input (so an omitted field clears the stored one), and nothing else changes: the ID, the
  owner, the client ID, the secret and its prefix, the public key fields and the active
  flag are those of \<open>old\<close>. When the save works, \<open>new\<close> replaces the row with that ID and its
  response is returned; when the save fails, the table is unchanged.
\<close>

theorem UpdateCredential_frame:
  assumes found: "FindByIDAndUserID (db_fault env 0) rows id' userID = Inr old"
  shows "\<exists>new.
     new = old\<lparr>PartnerName := (if UpdateCredentialInput.PartnerName input = '''' then PartnerName old
                                else UpdateCredentialInput.PartnerName input),
               Environment := (if UpdateCredentialInput.Environment input = '''' then Environment old
                                else UpdateCredentialInput.Environment input),
               CallbackURL := UpdateCredentialInput.CallbackURL input,
               IPWhitelist := UpdateCredentialInput.IPWhitelist input\<rparr> \<and>
     UpdateCredential env rows id' userID input =
       (case db_fault env 1 of
          Some msg \<Rightarrow> (Inl (Ext msg), rows)
        | None \<Rightarrow> (Inr (ToResponse new), map (\<lambda>r. if ID r = id' then new else r) rows)) \<and>
     ID new = ID old \<and> UserID new = UserID old \<and> ClientID new = ClientID old \<and>
     ClientSecret new = ClientSecret old \<and> ClientSecretPrefix new = ClientSecretPrefix old \<and>
     PublicKey new = PublicKey old \<and> PublicKeyFingerprint new = PublicKeyFingerprint old \<and>
     PublicKeyAddedAt new = PublicKeyAddedAt old \<and> IsActive new = IsActive old"
proof -
  from FindByIDAndUserID_Inr [OF found]
  have mem: "old \<in> set rows" and idold: "ID old = id'" by simp_all
  define new where "new = old\<lparr>PartnerName := (if UpdateCredentialInput.PartnerName input = '''' then PartnerName old
                                else UpdateCredentialInput.PartnerName input),
               Environment := (if UpdateCredentialInput.Environment input = '''' then Environment old
                                else UpdateCredentialInput.Environment input),
               CallbackURL := UpdateCredentialInput.CallbackURL input,
               IPWhitelist := UpdateCredentialInput.IPWhitelist input\<rparr>"
  have idnew: "ID new = ID old" by (simp add: new_def)
  have upd: "Update None rows new = (None, map (\<lambda>r. if ID r = id' then new else r) rows)"
    using Update_stored [OF mem idnew] idold by simp
  have updf: "\<And>msg. Update (Some msg) rows new = (Some (Ext msg), rows)"
    by (simp add: Update_def)
  have "UpdateCredential env rows id' userID input =
       (case db_fault env 1 of
          Some msg \<Rightarrow> (Inl (Ext msg), rows)
        | None \<Rightarrow> (Inr (ToResponse new), map (\<lambda>r. if ID r = id' then new else r) rows))"
  proof (cases "db_fault env 1")
    case None
    then show ?thesis
      using upd by (auto simp: UpdateCredential_def found Let_def new_def)
  next
    case (Some msg)
    then show ?thesis
      using updf [of msg] by (auto simp: UpdateCredential_def found Let_def new_def)
  qed
  then show ?thesis
    unfolding new_def by simp
qed









subsection \<open>The partner credential service on the sample data\<close>

lemma hex_a7_32: "hex_EncodeToString (map (\<lambda>i. 0xa7) [0..<32]) = fresh_secret"
  by (simp add: fresh_secret_def hextable_def upt_rec [of _ "numeral _"] drop_bit_eq_div)

lemma hex_a7_16: "hex_EncodeToString (map (\<lambda>i. 0xa7) [0..<16]) =
   ''a7a7a7a7a7a7a7a7a7a7a7a7a7a7a7a7''"
  by (simp add: hextable_def upt_rec [of _ "numeral _"] drop_bit_eq_div)

lemma sample_lookup:
  "FindByIDAndUserID None [sample_credential] 1 7 = Inr sample_credential"
  by (simp add: FindByIDAndUserID_def First_def sample_credential_def)





theorem ValidateCredential_fails_closed_witness:
  "ValidateCredential sample_env_second_statement_fails [sample_credential]
     (ClientID sample_credential) (ClientSecret sample_credential) =
     (Inr sample_credential, [sample_credential]) \<and>
   ValidateCredential sample_env [sample_credential] ''BASffffffffffffffffffffffffffffff''
     (ClientSecret sample_credential) = (Inl ErrCredentialNotFound, [sample_credential]) \<and>
   ValidateCredential sample_env [sample_credential] (ClientID sample_credential) fresh_secret =
     (Inl ErrCredentialNotFound, [sample_credential])"
proof -
  have look: "FindByClientID None [sample_credential] (ClientID sample_credential) =
                Inr sample_credential"
    by (simp add: FindByClientID_def First_def sample_credential_def)
  have a: "ValidateCredential sample_env_second_statement_fails [sample_credential]
     (ClientID sample_credential) (ClientSecret sample_credential) =
     (Inr sample_credential, [sample_credential])"
    using ValidateCredential_fails_closed [of sample_env_second_statement_fails
        "[sample_credential]" "ClientID sample_credential" ErrRecordNotFound
        "ClientSecret sample_credential" sample_credential] look
    by (simp add: sample_env_second_statement_fails_def sample_env_def)
  have b: "ValidateCredential sample_env [sample_credential] ''BASffffffffffffffffffffffffffffff''
     (ClientSecret sample_credential) = (Inl ErrCredentialNotFound, [sample_credential])"
    using ValidateCredential_fails_closed [of sample_env
        "[sample_credential]" "''BASffffffffffffffffffffffffffffff''" ErrRecordNotFound
        "ClientSecret sample_credential" sample_credential]
    by (simp add: sample_credential_def)
  have c: "ValidateCredential sample_env [sample_credential] (ClientID sample_credential)
      fresh_secret = (Inl ErrCredentialNotFound, [sample_credential])"
    using ValidateCredential_fails_closed [of sample_env
        "[sample_credential]" "ClientID sample_credential" ErrRecordNotFound
        fresh_secret sample_credential] look
    by (simp add: sample_env_def) (simp add: sample_credential_def fresh_secret_def)
  from a b c show ?thesis by simp
qed

theorem UpdateCredential_frame_witness:
  "UpdateCredential sample_env [sample_credential] 1 7 sample_update =
     (Inr (ToResponse (sample_credential\<lparr>Environment := ''production'', CallbackURL := '''',
                                          IPWhitelist := None\<rparr>)),
      [sample_credential\<lparr>Environment := ''production'', CallbackURL := '''',
                          IPWhitelist := None\<rparr>])"
proof -
  have found: "FindByIDAndUserID (db_fault sample_env 0) [sample_credential] 1 7 =
                 Inr sample_credential"
    by (simp add: sample_env_def sample_lookup)
  have "ID sample_credential = 1"
    by (simp add: sample_credential_def)
  then show ?thesis
    using UpdateCredential_frame [OF found, of sample_update]
    by (simp add: sample_env_def sample_update_def)
qed

section \<open>Properties of the public key validator\<close>

text \<open>
  Claim C6. \<^verbatim>\<open>ValidatePublicKey\<close> returns no fingerprint and no error on the empty string.
  On a non-empty input in which no PEM block is found, and on a block whose type is neither
  \<^verbatim>\<open>PUBLIC KEY\<close> nor \<^verbatim>\<open>RSA PUBLIC KEY\<close>, it returns an error \<^verbatim>\<open>invalid PEM format: ...\<close>;
  on a block of one of these types whose bytes parse neither as PKIX nor as PKCS#1 it
  returns the error \<^verbatim>\<open>invalid public key: unable to parse\<close>; otherwise it returns the hex
  encoding of the 32 bytes of the SHA-256 digest of the block's bytes, which is 64 lowercase
  hex characters. The result is a function of the input alone (the source reads no clock,
  entropy or stored state), so repeated calls on the same input agree.
\<close>

theorem ValidatePublicKey_contract:
  "ValidatePublicKey lib '''' = ('''', None) \<and>
   (pemKey \<noteq> '''' \<and> pem_Decode lib pemKey = None \<longrightarrow>
      ValidatePublicKey lib pemKey =
        ('''', Some (ErrorsNew ''invalid PEM format: no valid PEM block found''))) \<and>
   (pemKey \<noteq> '''' \<and> pem_Decode lib pemKey = Some block \<and>
    Type block \<noteq> ''PUBLIC KEY'' \<and> Type block \<noteq> ''RSA PUBLIC KEY'' \<longrightarrow>
      ValidatePublicKey lib pemKey =
        ('''', Some (ErrorsNew ''invalid PEM format: expected PUBLIC KEY or RSA PUBLIC KEY''))) \<and>
   (pemKey \<noteq> '''' \<and> pem_Decode lib pemKey = Some block \<and>
    (Type block = ''PUBLIC KEY'' \<or> Type block = ''RSA PUBLIC KEY'') \<and>
    \<not> ParsePKIXPublicKey lib (Bytes block) \<and> \<not> ParsePKCS1PublicKey lib (Bytes block) \<longrightarrow>
      ValidatePublicKey lib pemKey =
        ('''', Some (ErrorsNew ''invalid public key: unable to parse''))) \<and>
   (pemKey \<noteq> '''' \<and> pem_Decode lib pemKey = Some block \<and>
    (Type block = ''PUBLIC KEY'' \<or> Type block = ''RSA PUBLIC KEY'') \<and>
    (ParsePKIXPublicKey lib (Bytes block) \<or> ParsePKCS1PublicKey lib (Bytes block)) \<longrightarrow>
      ValidatePublicKey lib pemKey =
        (hex_EncodeToString (map (sha256_Sum256 lib (Bytes block)) [0..<32]), None) \<and>
      length (fst (ValidatePublicKey lib pemKey)) = 64 \<and>
      lower_hex (fst (ValidatePublicKey lib pemKey)))"
proof -
  let ?digest = "map (sha256_Sum256 lib (Bytes block)) [0..<32]"
  have empty: "ValidatePublicKey lib '''' = ('''', None)"
    by (simp add: ValidatePublicKey_def)
  have no_block: "ValidatePublicKey lib pemKey =
        ('''', Some (ErrorsNew ''invalid PEM format: no valid PEM block found''))"
    if "pemKey \<noteq> ''''" "pem_Decode lib pemKey = None"
    using that by (simp add: ValidatePublicKey_def)
  have wrong_type: "ValidatePublicKey lib pemKey =
        ('''', Some (ErrorsNew ''invalid PEM format: expected PUBLIC KEY or RSA PUBLIC KEY''))"
    if "pemKey \<noteq> ''''" "pem_Decode lib pemKey = Some block"
      "Type block \<noteq> ''PUBLIC KEY''" "Type block \<noteq> ''RSA PUBLIC KEY''"
    using that by (simp add: ValidatePublicKey_def)
  have unparsable: "ValidatePublicKey lib pemKey =
        ('''', Some (ErrorsNew ''invalid public key: unable to parse''))"
    if "pemKey \<noteq> ''''" "pem_Decode lib pemKey = Some block"
      "Type block = ''PUBLIC KEY'' \<or> Type block = ''RSA PUBLIC KEY''"
      "\<not> ParsePKIXPublicKey lib (Bytes block)" "\<not> ParsePKCS1PublicKey lib (Bytes block)"
    using that by (auto simp: ValidatePublicKey_def)
  have fingerprint: "ValidatePublicKey lib pemKey = (hex_EncodeToString ?digest, None)"
    if "pemKey \<noteq> ''''" "pem_Decode lib pemKey = Some block"
      "Type block = ''PUBLIC KEY'' \<or> Type block = ''RSA PUBLIC KEY''"
      "ParsePKIXPublicKey lib (Bytes block) \<or> ParsePKCS1PublicKey lib (Bytes block)"
    using that by (auto simp: ValidatePublicKey_def)
  have "length (hex_EncodeToString ?digest) = 64"
    by (simp add: length_hex_EncodeToString)
  moreover have "lower_hex (hex_EncodeToString ?digest)"
    by (rule lower_hex_EncodeToString)
  ultimately show ?thesis
    using empty no_block wrong_type unparsable fingerprint by simp
qed

theorem ValidatePublicKey_contract_witness:
  "ValidatePublicKey sample_x509lib ''-----BEGIN PUBLIC KEY-----'' = (''a7a7a7a7a7a7a7a7a7a7a7a7a7a7a7a7a7a7a7a7a7a7a7a7a7a7a7a7a7a7a7a7'', None) \<and>
   ValidatePublicKey sample_x509lib ''-----BEGIN CERTIFICATE-----'' =
     ('''', Some (ErrorsNew ''invalid PEM format: expected PUBLIC KEY or RSA PUBLIC KEY'')) \<and>
   ValidatePublicKey sample_x509lib ''hello'' =
     ('''', Some (ErrorsNew ''invalid PEM format: no valid PEM block found''))"
proof -
  have a: "ValidatePublicKey sample_x509lib ''-----BEGIN PUBLIC KEY-----'' = (''a7a7a7a7a7a7a7a7a7a7a7a7a7a7a7a7a7a7a7a7a7a7a7a7a7a7a7a7a7a7a7a7'', None)"
    using ValidatePublicKey_contract [of sample_x509lib "''-----BEGIN PUBLIC KEY-----''"
        "\<lparr> Type = ''PUBLIC KEY'', Bytes = [0x30, 0x82] \<rparr>"]
    by (simp add: sample_x509lib_def hex_a7_32 fresh_secret_def)
  have b: "ValidatePublicKey sample_x509lib ''-----BEGIN CERTIFICATE-----'' =
     ('''', Some (ErrorsNew ''invalid PEM format: expected PUBLIC KEY or RSA PUBLIC KEY''))"
    using ValidatePublicKey_contract [of sample_x509lib "''-----BEGIN CERTIFICATE-----''"
        "\<lparr> Type = ''CERTIFICATE'', Bytes = [0x30, 0x82] \<rparr>"]
    by (simp add: sample_x509lib_def)
  have c: "ValidatePublicKey sample_x509lib ''hello'' =
     ('''', Some (ErrorsNew ''invalid PEM format: no valid PEM block found''))"
    using ValidatePublicKey_contract [of sample_x509lib "''hello''"]
    by (simp add: sample_x509lib_def)
  from a b c show ?thesis by simp
qed

section \<open>Quota and revocation\<close>

lemma GenerateAPIKey_err: "GenerateAPIKey src = (k, p, Some err) \<Longrightarrow> \<exists>msg. err = Ext msg"
  by (cases src) (auto simp: GenerateAPIKey_def Let_def)

lemma GenerateClientCredentials_err:
  "GenerateClientCredentials src1 src2 = (c, s, p, Some err) \<Longrightarrow> \<exists>msg. err = Ext msg"
  by (cases src1; cases src2) (auto simp: GenerateClientCredentials_def Let_def)

lemma GenerateChannelID_err: "GenerateChannelID src = (c, Some err) \<Longrightarrow> \<exists>msg. err = Ext msg"
  by (cases src) (auto simp: GenerateChannelID_def)

lemma APIKeyRepository_Create_err:
  "APIKeyRepository_Create fault fresh now rows k = Inl err \<Longrightarrow> \<exists>msg. err = Ext msg"
  by (auto simp: APIKeyRepository_Create_def Let_def split: option.splits if_splits)

lemma Create_err: "Create fault fresh now rows c = Inl err \<Longrightarrow> \<exists>msg. err = Ext msg"
  by (auto simp: Create_def Let_def split: option.splits if_splits)

lemma CreateKey_quota:
  assumes "APIKeyRepository_CountByUserID (db_fault env 0) rows userID = Inr n"
  shows "(fst (CreateKey bcrypt env rows userID input) = Inl ErrMaxKeysReached) = (n \<ge> 10)"
proof (cases "n \<ge> 10")
  case True
  then show ?thesis using assms by (simp add: CreateKey_def MaxAPIKeysPerUser_def)
next
  case False
  obtain k p e where g: "GenerateAPIKey (entropy env 0) = (k, p, e)"
    by (metis prod_cases3)
  have "fst (CreateKey bcrypt env rows userID input) \<noteq> Inl ErrMaxKeysReached"
    using False assms g
    by (auto simp: CreateKey_def MaxAPIKeysPerUser_def Let_def
        split: option.splits sum.splits prod.splits
        dest!: GenerateAPIKey_err APIKeyRepository_Create_err)
  then show ?thesis using False by simp
qed

lemma CreateCredential_quota:
  assumes "CountByUserID (db_fault env 0) rows userID = Inr n"
  shows "(fst (CreateCredential lib env rows userID input) = Inl ErrMaxCredentialsReached) = (n \<ge> 5)"
proof (cases "n \<ge> 5")
  case True
  then show ?thesis using assms by (simp add: CreateCredential_def)
next
  case False
  have "fst (CreateCredential lib env rows userID input) \<noteq> Inl ErrMaxCredentialsReached"
    using False assms
    by (auto simp: CreateCredential_def Let_def
        split: option.splits sum.splits prod.splits if_splits
        dest!: GenerateClientCredentials_err GenerateChannelID_err Create_err)
  then show ?thesis using False by simp
qed

lemma CreateKey_succeeds:
  assumes cnt: "APIKeyRepository_CountByUserID (db_fault env 0) rows userID = Inr n" "n < 10"
    and ent: "entropy env 0 = RandBytes f"
    and hash: "bcrypt (''bas_'' @ hex_EncodeToString (map f [0..<32])) = Inr h"
    and db: "db_fault env 1 = None"
    and fresh: "\<not> list_ex (\<lambda>r. APIKey.ID r = new_uuid env) rows"
  shows "\<exists>stored. CreateKey bcrypt env rows userID input =
           (Inr \<lparr> APIKeyCreateResponse.Response = APIKey_ToResponse stored,
                  APIKeyCreateResponse.Key = ''bas_'' @ hex_EncodeToString (map f [0..<32]) \<rparr>,
            rows @ [stored]) \<and>
         APIKey.IsActive stored \<and> APIKey.DeletedAt stored = None \<and>
         APIKey.UserID stored = userID \<and> APIKey.ID stored = new_uuid env \<and>
         APIKey.KeyHash stored = h"
  using assms
  by (simp add: CreateKey_def MaxAPIKeysPerUser_def GenerateAPIKey_def Let_def
      APIKeyRepository_Create_def APIKey_BeforeCreate_def uuid_Nil_def del: One_nat_def)

lemma CreateCredential_succeeds:
  assumes cnt: "CountByUserID (db_fault env 0) rows userID = Inr n" "n < 5"
    and ent: "entropy env 0 = RandBytes f1" "entropy env 1 = RandBytes f2"
      "entropy env 2 = RandBytes g"
    and key: "CreateCredentialInput.PublicKey input = '''' \<or>
              snd (ValidatePublicKey lib (CreateCredentialInput.PublicKey input)) = None"
    and db: "db_fault env 1 = None"
    and fresh: "\<not> list_ex (\<lambda>r. ID r = new_uuid env \<or>
                  ClientID r = ''BAS'' @ take 29 (hex_EncodeToString (map f1 [0..<16]))) rows"
  shows "\<exists>stored. CreateCredential lib env rows userID input =
           (Inr \<lparr> PartnerCredentialCreateResponse.Response = ToResponse stored,
                  PartnerCredentialCreateResponse.ClientSecret =
                    hex_EncodeToString (map f2 [0..<32]) \<rparr>,
            rows @ [stored]) \<and>
         IsActive stored \<and> DeletedAt stored = None \<and> UserID stored = userID \<and>
         ID stored = new_uuid env \<and>
         ClientID stored = ''BAS'' @ take 29 (hex_EncodeToString (map f1 [0..<16])) \<and>
         ClientSecret stored = hex_EncodeToString (map f2 [0..<32])"
proof -
  obtain fp e where v: "ValidatePublicKey lib (CreateCredentialInput.PublicKey input) = (fp, e)"
    by (metis prod.exhaust)
  have e: "CreateCredentialInput.PublicKey input \<noteq> '''' \<Longrightarrow> e = None"
    using key v by simp
  have gen: "GenerateClientCredentials (entropy env 0) (entropy env 1) =
      (''BAS'' @ take 29 (hex_EncodeToString (map f1 [0..<16])),
       hex_EncodeToString (map f2 [0..<32]),
       take 8 (hex_EncodeToString (map f2 [0..<32])) @ ''...'', None)"
    by (simp add: ent GenerateClientCredentials_def Let_def del: One_nat_def)
  have ch: "GenerateChannelID (entropy env 2) = (''CH'' @ hex_EncodeToString (map g [0..<8]), None)"
    by (simp add: ent GenerateChannelID_def)
  show ?thesis
    using cnt db fresh e
    by (cases "CreateCredentialInput.PublicKey input = ''''")
      (simp_all add: CreateCredential_def gen ch v Let_def Create_def BeforeCreate_def uuid_Nil_def
        del: One_nat_def)
qed

lemma where_pk_single:
  assumes "distinct (map pk rows)" "k \<in> set rows" "Q k" "\<And>r. Q r \<Longrightarrow> pk r = pk k"
  shows "map (\<lambda>r. if Q r then g r else r) rows = map (\<lambda>r. if r = k then g k else r) rows"
proof (rule map_cong [OF refl])
  fix r assume r: "r \<in> set rows"
  show "(if Q r then g r else r) = (if r = k then g k else r)"
  proof (cases "Q r")
    case True
    then have "pk r = pk k" by (rule assms(4))
    then have "r = k" by (rule pk_unique [OF assms(1) r assms(2)])
    then show ?thesis using True by simp
  next
    case False
    then have "r \<noteq> k" using assms(3) by blast
    then show ?thesis using False by simp
  qed
qed

lemma count_drop:
  assumes "distinct rows" "k \<in> set rows" "P k" "\<not> P k'"
  shows "length (filter P (map (\<lambda>r. if r = k then k' else r) rows)) + 1 = length (filter P rows)"
  using assms(1,2)
proof (induction rows)
  case Nil
  then show ?case by simp
next
  case (Cons a rows)
  show ?case
  proof (cases "a = k")
    case True
    then have "k \<notin> set rows" using Cons.prems(1) by simp
    then have "map (\<lambda>r. if r = k then k' else r) rows = rows"
      by (intro map_idI) auto
    then show ?thesis using True assms(3,4) by simp
  next
    case False
    then have "k \<in> set rows" using Cons.prems(2) by simp
    then show ?thesis
      using Cons.IH Cons.prems(1) False by simp
  qed
qed

lemma replaced_rows:
  assumes "distinct (map pk rows)" "k \<in> set rows" "pk k' = pk k"
    and "r \<in> set (map (\<lambda>r. if r = k then k' else r) rows)" "pk r = pk k"
  shows "r = k'"
proof -
  from assms(4) obtain r0 where r0: "r0 \<in> set rows" "r = (if r0 = k then k' else r0)"
    by auto
  show ?thesis
  proof (cases "r0 = k")
    case True
    then show ?thesis using r0 by simp
  next
    case False
    then have "r = r0" using r0 by simp
    then have "pk r0 = pk k" using assms(5) by simp
    then have "r0 = k" using pk_unique [OF assms(1) r0(1) assms(2)] by simp
    then show ?thesis using False by simp
  qed
qed

lemma Revoke_keeps_IDs:
  "map APIKey.ID (snd (APIKeyRepository_Revoke fault keys id' userID)) = map APIKey.ID keys"
  by (cases fault) (simp_all add: APIKeyRepository_Revoke_def comp_def)

lemma Delete_keeps_IDs:
  "map ID (snd (Delete fault now creds id' userID)) = map ID creds \<and>
   map ClientID (snd (Delete fault now creds id' userID)) = map ClientID creds"
  by (cases fault) (simp_all add: Delete_def comp_def)

lemma Revoke_row:
  assumes "distinct (map APIKey.ID keys)" "k \<in> set keys" "APIKey.DeletedAt k = None"
  shows "APIKeyRepository_Revoke None keys (APIKey.ID k) (APIKey.UserID k) =
           (None, map (\<lambda>r. if r = k then k\<lparr>APIKey.IsActive := False\<rparr> else r) keys)"
proof -
  have "map (\<lambda>r. if APIKey.ID r = APIKey.ID k \<and> APIKey.UserID r = APIKey.UserID k \<and>
                      APIKey.DeletedAt r = None
                   then r\<lparr>APIKey.IsActive := False\<rparr> else r) keys =
        map (\<lambda>r. if r = k then k\<lparr>APIKey.IsActive := False\<rparr> else r) keys"
    by (rule where_pk_single [OF assms(1,2)]) (simp_all add: assms(3))
  then show ?thesis
    by (simp only: APIKeyRepository_Revoke_def option.case)
qed

lemma Delete_row:
  assumes "distinct (map ID creds)" "c \<in> set creds" "DeletedAt c = None"
  shows "Delete None now creds (ID c) (UserID c) =
           (None, map (\<lambda>r. if r = c then c\<lparr>DeletedAt := Some now\<rparr> else r) creds)"
proof -
  have "map (\<lambda>r. if ID r = ID c \<and> UserID r = UserID c \<and> DeletedAt r = None
                   then r\<lparr>DeletedAt := Some now\<rparr> else r) creds =
        map (\<lambda>r. if r = c then c\<lparr>DeletedAt := Some now\<rparr> else r) creds"
    by (rule where_pk_single [OF assms(1,2)]) (simp_all add: assms(3))
  then show ?thesis
    by (simp only: Delete_def option.case)
qed

lemma replaced_mem: "k \<in> set rows \<Longrightarrow> k' \<in> set (map (\<lambda>r. if r = k then k' else r) rows)"
  by (auto simp: image_iff)

lemma Revoke_unlisted:
  assumes "distinct (map APIKey.ID keys)" "k \<in> set keys"
    and "APIKeyRepository_FindByUserID None
           (map (\<lambda>r. if r = k then k\<lparr>APIKey.IsActive := False\<rparr> else r) keys) userID = Inr l"
    and "r \<in> set l"
  shows "APIKey.ID r \<noteq> APIKey.ID k"
proof
  assume eq: "APIKey.ID r = APIKey.ID k"
  from assms(3,4) have r: "r \<in> set (map (\<lambda>r. if r = k then k\<lparr>APIKey.IsActive := False\<rparr> else r) keys)"
    and act: "APIKey.IsActive r"
    by (auto simp: APIKeyRepository_FindByUserID_def)
  have "r = k\<lparr>APIKey.IsActive := False\<rparr>"
    by (rule replaced_rows [OF assms(1,2) _ r eq]) simp
  with act show False by simp
qed

lemma Delete_unlisted:
  assumes "distinct (map ID creds)" "c \<in> set creds"
    and "FindByUserID None
           (map (\<lambda>r. if r = c then c\<lparr>DeletedAt := Some now\<rparr> else r) creds) userID = Inr l"
    and "r \<in> set l"
  shows "ID r \<noteq> ID c"
proof
  assume eq: "ID r = ID c"
  from assms(3,4) have r: "r \<in> set (map (\<lambda>r. if r = c then c\<lparr>DeletedAt := Some now\<rparr> else r) creds)"
    and live: "DeletedAt r = None"
    by (auto simp: FindByUserID_def)
  have "r = c\<lparr>DeletedAt := Some now\<rparr>"
    by (rule replaced_rows [OF assms(1,2) _ r eq]) simp
  with live show False by simp
qed

lemma Delete_count:
  assumes "distinct (map ID creds)" "c \<in> set creds" "DeletedAt c = None" "IsActive c"
  shows "CountByUserID None
           (map (\<lambda>r. if r = c then c\<lparr>DeletedAt := Some now\<rparr> else r) creds) (UserID c) =
         Inr (int (length (filter (\<lambda>r. UserID r = UserID c \<and> IsActive r \<and> DeletedAt r = None)
                             creds)) - 1)"
proof -
  define P where "P = (\<lambda>r :: PartnerCredential. UserID r = UserID c \<and> IsActive r \<and> DeletedAt r = None)"
  have d: "distinct creds" using assms(1) by (simp add: distinct_map)
  have p: "P c" using assms(3,4) by (simp add: P_def)
  have np: "\<not> P (c\<lparr>DeletedAt := Some now\<rparr>)" by (simp add: P_def)
  have "length (filter P (map (\<lambda>r. if r = c then c\<lparr>DeletedAt := Some now\<rparr> else r) creds)) + 1 =
        length (filter P creds)"
    by (rule count_drop [OF d assms(2) p np])
  then have "int (length (filter P (map (\<lambda>r. if r = c then c\<lparr>DeletedAt := Some now\<rparr> else r) creds))) =
        int (length (filter P creds)) - 1"
    by linarith
  then show ?thesis
    unfolding CountByUserID_def P_def by simp
qed

lemma Revoke_count:
  assumes "distinct (map APIKey.ID keys)" "k \<in> set keys" "APIKey.DeletedAt k = None"
    "APIKey.IsActive k"
  shows "APIKeyRepository_CountByUserID None
           (map (\<lambda>r. if r = k then k\<lparr>APIKey.IsActive := False\<rparr> else r) keys) (APIKey.UserID k) =
         Inr (int (length (filter (\<lambda>r. APIKey.UserID r = APIKey.UserID k \<and> APIKey.IsActive r \<and>
                                       APIKey.DeletedAt r = None) keys)) - 1)"
proof -
  define P where
    "P = (\<lambda>r :: APIKey. APIKey.UserID r = APIKey.UserID k \<and> APIKey.IsActive r \<and> APIKey.DeletedAt r = None)"
  have d: "distinct keys" using assms(1) by (simp add: distinct_map)
  have p: "P k" using assms(3,4) by (simp add: P_def)
  have np: "\<not> P (k\<lparr>APIKey.IsActive := False\<rparr>)" by (simp add: P_def)
  have "length (filter P (map (\<lambda>r. if r = k then k\<lparr>APIKey.IsActive := False\<rparr> else r) keys)) + 1 =
        length (filter P keys)"
    by (rule count_drop [OF d assms(2) p np])
  then have "int (length (filter P (map (\<lambda>r. if r = k then k\<lparr>APIKey.IsActive := False\<rparr> else r) keys))) =
        int (length (filter P keys)) - 1"
    by linarith
  then show ?thesis
    unfolding APIKeyRepository_CountByUserID_def P_def by simp
qed

lemma Create_reserved:
  assumes "x \<in> set rows" "ClientID credential = ClientID x"
  shows "isl (Create fault fresh now rows credential)"
proof (cases fault)
  case None
  have "ClientID ((BeforeCreate fresh credential)\<lparr>CreatedAt := now\<rparr>) = ClientID x"
    using assms(2) by (simp add: BeforeCreate_def)
  then have "list_ex (\<lambda>r. ID r = ID ((BeforeCreate fresh credential)\<lparr>CreatedAt := now\<rparr>) \<or>
                 ClientID r = ClientID ((BeforeCreate fresh credential)\<lparr>CreatedAt := now\<rparr>)) rows"
    using assms(1) by (auto simp: list_ex_iff)
  then show ?thesis
    using None by (simp add: Create_def Let_def)
next
  case (Some msg)
  then show ?thesis by (simp add: Create_def)
qed



lemma list_ex_map_cong:
  "map f rows' = map f rows \<Longrightarrow> list_ex (\<lambda>r. f r = v) rows' = list_ex (\<lambda>r. f r = v) rows"
proof -
  assume "map f rows' = map f rows"
  then have "f ` set rows' = f ` set rows"
    by (metis set_map)
  then show ?thesis
    unfolding list_ex_iff by (metis (mono_tags, lifting) image_iff)
qed

lemma Revoke_then_create:
  assumes pk: "distinct (map APIKey.ID keys)" and k: "k \<in> set keys"
    and live: "APIKey.DeletedAt k = None" and act: "APIKey.IsActive k"
    and full: "APIKeyRepository_CountByUserID None keys (APIKey.UserID k) = Inr 10"
    and db0: "db_fault env 0 = None" and ent: "entropy env 0 = RandBytes f"
    and hash: "bcrypt (''bas_'' @ hex_EncodeToString (map f [0..<32])) = Inr h"
    and db1: "db_fault env 1 = None"
    and fresh: "\<not> list_ex (\<lambda>r. APIKey.ID r = new_uuid env) keys"
  defines "keys' \<equiv> map (\<lambda>r. if r = k then k\<lparr>APIKey.IsActive := False\<rparr> else r) keys"
  shows "fst (CreateKey bcrypt env keys (APIKey.UserID k) kinput) = Inl ErrMaxKeysReached \<and>
         (\<exists>stored. CreateKey bcrypt env keys' (APIKey.UserID k) kinput =
            (Inr \<lparr> APIKeyCreateResponse.Response = APIKey_ToResponse stored,
                   APIKeyCreateResponse.Key = ''bas_'' @ hex_EncodeToString (map f [0..<32]) \<rparr>,
             keys' @ [stored]) \<and> APIKey.IsActive stored)"
proof -
  have before: "fst (CreateKey bcrypt env keys (APIKey.UserID k) kinput) = Inl ErrMaxKeysReached"
    using CreateKey_quota [of env keys "APIKey.UserID k" 10 bcrypt kinput] full db0 by simp
  have "int (length (filter (\<lambda>r. APIKey.UserID r = APIKey.UserID k \<and> APIKey.IsActive r \<and>
                                       APIKey.DeletedAt r = None) keys)) = 10"
    using full by (simp add: APIKeyRepository_CountByUserID_def)
  then have cnt: "APIKeyRepository_CountByUserID (db_fault env 0) keys' (APIKey.UserID k) = Inr 9"
    using Revoke_count [OF pk k live act] by (simp add: keys'_def db0)
  have "map APIKey.ID keys' = map APIKey.ID keys"
    using Revoke_row [OF pk k live] Revoke_keeps_IDs [of None keys "APIKey.ID k" "APIKey.UserID k"]
    by (simp add: keys'_def)
  then have fresh': "\<not> list_ex (\<lambda>r. APIKey.ID r = new_uuid env) keys'"
    using fresh list_ex_map_cong [of APIKey.ID keys' keys "new_uuid env"] by simp
  have nine: "(9 :: int) < 10" by simp
  from CreateKey_succeeds [where bcrypt = bcrypt and env = env and rows = keys'
        and input = kinput and f = f and n = 9 and h = h and userID = "APIKey.UserID k",
        OF cnt nine ent hash db1 fresh']
  show ?thesis using before by blast
qed

lemma Delete_then_create:
  fixes now :: time
  assumes pk: "distinct (map ID creds)" and c: "c \<in> set creds"
    and live: "DeletedAt c = None" and act: "IsActive c"
    and full: "CountByUserID None creds (UserID c) = Inr 5"
    and db0: "db_fault env 0 = None"
    and ent: "entropy env 0 = RandBytes f1" "entropy env 1 = RandBytes f2"
      "entropy env 2 = RandBytes g"
    and key: "CreateCredentialInput.PublicKey cinput = '''' \<or>
              snd (ValidatePublicKey lib (CreateCredentialInput.PublicKey cinput)) = None"
    and db1: "db_fault env 1 = None"
    and fresh: "\<not> list_ex (\<lambda>r. ID r = new_uuid env) creds"
      "\<not> list_ex (\<lambda>r. ClientID r = ''BAS'' @ take 29 (hex_EncodeToString (map f1 [0..<16]))) creds"
  defines "creds' \<equiv> map (\<lambda>r. if r = c then c\<lparr>DeletedAt := Some now\<rparr> else r) creds"
  shows "fst (CreateCredential lib env creds (UserID c) cinput) = Inl ErrMaxCredentialsReached \<and>
         (\<exists>stored. CreateCredential lib env creds' (UserID c) cinput =
            (Inr \<lparr> PartnerCredentialCreateResponse.Response = ToResponse stored,
                   PartnerCredentialCreateResponse.ClientSecret =
                     hex_EncodeToString (map f2 [0..<32]) \<rparr>,
             creds' @ [stored]) \<and> IsActive stored)"
proof -
  have before: "fst (CreateCredential lib env creds (UserID c) cinput) = Inl ErrMaxCredentialsReached"
    using CreateCredential_quota [of env creds "UserID c" 5 lib cinput] full db0 by simp
  have "int (length (filter (\<lambda>r. UserID r = UserID c \<and> IsActive r \<and> DeletedAt r = None) creds)) = 5"
    using full by (simp add: CountByUserID_def)
  then have cnt: "CountByUserID (db_fault env 0) creds' (UserID c) = Inr 4"
    using Delete_count [OF pk c live act, of now] by (simp add: creds'_def db0)
  have same: "map ID creds' = map ID creds" "map ClientID creds' = map ClientID creds"
    using Delete_row [OF pk c live, of now] Delete_keeps_IDs [of None now creds "ID c" "UserID c"]
    by (simp_all add: creds'_def)
  have "\<not> list_ex (\<lambda>r. ID r = new_uuid env) creds'"
    "\<not> list_ex (\<lambda>r. ClientID r = ''BAS'' @ take 29 (hex_EncodeToString (map f1 [0..<16]))) creds'"
    using fresh list_ex_map_cong [OF same(1), of "new_uuid env"]
      list_ex_map_cong [OF same(2), of "''BAS'' @ take 29 (hex_EncodeToString (map f1 [0..<16]))"]
    by simp_all
  then have fresh': "\<not> list_ex (\<lambda>r. ID r = new_uuid env \<or>
                  ClientID r = ''BAS'' @ take 29 (hex_EncodeToString (map f1 [0..<16]))) creds'"
    unfolding list_ex_iff by blast
  have four: "(4 :: int) < 5" by simp
  from CreateCredential_succeeds [OF cnt four ent key db1 fresh']
  show ?thesis using before by blast
qed

text \<open>
  Claim C8. \<^verbatim>\<open>APIKeyRepository.Revoke\<close> and \<^verbatim>\<open>PartnerCredentialRepository.Delete\<close> never
  remove a row: whatever their arguments and outcome, the primary keys (and client IDs) of
  the table are the same afterwards. For a stored, undeleted API key \<open>k\<close> in a table with
  unique primary keys, \<^verbatim>\<open>Revoke\<close> turns \<open>k\<close> into \<open>k\<close> with the active flag off and changes
  nothing else; the key is no longer in its owner's listing; if it was active, the owner's
  active count drops by one, and if that count was 10, \<^verbatim>\<open>CreateKey\<close>, which failed with the
  quota error before, succeeds afterwards (its collaborators working). For a stored,
  undeleted partner credential \<open>c\<close>, \<^verbatim>\<open>Delete\<close> turns \<open>c\<close> into \<open>c\<close> with \<open>DeletedAt\<close> set and
  changes nothing else; inserting a credential with the client ID of \<open>c\<close> fails afterwards
  (the ID stays reserved); \<open>c\<close> is no longer in its owner's listing; if it was active, the
  owner's active count drops by one, and if that count was 5, \<^verbatim>\<open>CreateCredential\<close>, which
  failed with the quota error before, succeeds afterwards.
\<close>

theorem revocation_keeps_the_record:
  fixes now :: time
  assumes pk: "distinct (map APIKey.ID keys)" and k: "k \<in> set keys"
    and klive: "APIKey.DeletedAt k = None"
    and cpk: "distinct (map ID creds)" and c: "c \<in> set creds" and clive: "DeletedAt c = None"
  defines "keys' \<equiv> map (\<lambda>r. if r = k then k\<lparr>APIKey.IsActive := False\<rparr> else r) keys"
    and "creds' \<equiv> map (\<lambda>r. if r = c then c\<lparr>DeletedAt := Some now\<rparr> else r) creds"
  shows
    "map APIKey.ID (snd (APIKeyRepository_Revoke fault keys keyID uid)) = map APIKey.ID keys \<and>
     map ID (snd (Delete fault' now creds cid uid')) = map ID creds \<and>
     map ClientID (snd (Delete fault' now creds cid uid')) = map ClientID creds \<and>
     APIKeyRepository_Revoke None keys (APIKey.ID k) (APIKey.UserID k) = (None, keys') \<and>
     k\<lparr>APIKey.IsActive := False\<rparr> \<in> set keys' \<and>
     (\<forall>l. APIKeyRepository_FindByUserID None keys' (APIKey.UserID k) = Inr l \<longrightarrow>
          (\<forall>r\<in>set l. APIKey.ID r \<noteq> APIKey.ID k)) \<and>
     (APIKey.IsActive k \<longrightarrow>
        APIKeyRepository_CountByUserID None keys' (APIKey.UserID k) =
          Inr (int (length (filter (\<lambda>r. APIKey.UserID r = APIKey.UserID k \<and> APIKey.IsActive r \<and>
                                        APIKey.DeletedAt r = None) keys)) - 1)) \<and>
     (APIKey.IsActive k \<and>
      APIKeyRepository_CountByUserID None keys (APIKey.UserID k) = Inr 10 \<and>
      db_fault env 0 = None \<and> entropy env 0 = RandBytes f \<and>
      bcrypt (''bas_'' @ hex_EncodeToString (map f [0..<32])) = Inr h \<and>
      db_fault env 1 = None \<and> \<not> list_ex (\<lambda>r. APIKey.ID r = new_uuid env) keys \<longrightarrow>
        fst (CreateKey bcrypt env keys (APIKey.UserID k) kinput) = Inl ErrMaxKeysReached \<and>
        (\<exists>stored. CreateKey bcrypt env keys' (APIKey.UserID k) kinput =
            (Inr \<lparr> APIKeyCreateResponse.Response = APIKey_ToResponse stored,
                   APIKeyCreateResponse.Key = ''bas_'' @ hex_EncodeToString (map f [0..<32]) \<rparr>,
             keys' @ [stored]) \<and> APIKey.IsActive stored)) \<and>
     Delete None now creds (ID c) (UserID c) = (None, creds') \<and>
     c\<lparr>DeletedAt := Some now\<rparr> \<in> set creds' \<and>
     (\<forall>x. ClientID x = ClientID c \<longrightarrow> isl (Create fault'' fresh now' creds' x)) \<and>
     (\<forall>l. FindByUserID None creds' (UserID c) = Inr l \<longrightarrow> (\<forall>r\<in>set l. ID r \<noteq> ID c)) \<and>
     (IsActive c \<longrightarrow>
        CountByUserID None creds' (UserID c) =
          Inr (int (length (filter (\<lambda>r. UserID r = UserID c \<and> IsActive r \<and> DeletedAt r = None)
                              creds)) - 1)) \<and>
     (IsActive c \<and> CountByUserID None creds (UserID c) = Inr 5 \<and>
      db_fault env' 0 = None \<and> entropy env' 0 = RandBytes f1 \<and> entropy env' 1 = RandBytes f2 \<and>
      entropy env' 2 = RandBytes g \<and>
      (CreateCredentialInput.PublicKey cinput = '''' \<or>
       snd (ValidatePublicKey lib (CreateCredentialInput.PublicKey cinput)) = None) \<and>
      db_fault env' 1 = None \<and> \<not> list_ex (\<lambda>r. ID r = new_uuid env') creds \<and>
      \<not> list_ex (\<lambda>r. ClientID r = ''BAS'' @ take 29 (hex_EncodeToString (map f1 [0..<16])))
           creds \<longrightarrow>
        fst (CreateCredential lib env' creds (UserID c) cinput) = Inl ErrMaxCredentialsReached \<and>
        (\<exists>stored. CreateCredential lib env' creds' (UserID c) cinput =
            (Inr \<lparr> PartnerCredentialCreateResponse.Response = ToResponse stored,
                   PartnerCredentialCreateResponse.ClientSecret =
                     hex_EncodeToString (map f2 [0..<32]) \<rparr>,
             creds' @ [stored]) \<and> IsActive stored))"
proof -
  have a1: "map APIKey.ID (snd (APIKeyRepository_Revoke fault keys keyID uid)) = map APIKey.ID keys"
    by (rule Revoke_keeps_IDs)
  have a2: "map ID (snd (Delete fault' now creds cid uid')) = map ID creds"
    and a3: "map ClientID (snd (Delete fault' now creds cid uid')) = map ClientID creds"
    using Delete_keeps_IDs [of fault' now creds cid uid'] by simp_all
  have b1: "APIKeyRepository_Revoke None keys (APIKey.ID k) (APIKey.UserID k) = (None, keys')"
    unfolding keys'_def by (rule Revoke_row [OF pk k klive])
  have b2: "k\<lparr>APIKey.IsActive := False\<rparr> \<in> set keys'"
    unfolding keys'_def by (rule replaced_mem [OF k])
  have b3: "\<forall>l. APIKeyRepository_FindByUserID None keys' (APIKey.UserID k) = Inr l \<longrightarrow>
          (\<forall>r\<in>set l. APIKey.ID r \<noteq> APIKey.ID k)"
    unfolding keys'_def using Revoke_unlisted [OF pk k] by blast
  have b4: "APIKey.IsActive k \<longrightarrow>
        APIKeyRepository_CountByUserID None keys' (APIKey.UserID k) =
          Inr (int (length (filter (\<lambda>r. APIKey.UserID r = APIKey.UserID k \<and> APIKey.IsActive r \<and>
                                        APIKey.DeletedAt r = None) keys)) - 1)"
    unfolding keys'_def using Revoke_count [OF pk k klive] by blast
  have b5: "APIKey.IsActive k \<and>
      APIKeyRepository_CountByUserID None keys (APIKey.UserID k) = Inr 10 \<and>
      db_fault env 0 = None \<and> entropy env 0 = RandBytes f \<and>
      bcrypt (''bas_'' @ hex_EncodeToString (map f [0..<32])) = Inr h \<and>
      db_fault env 1 = None \<and> \<not> list_ex (\<lambda>r. APIKey.ID r = new_uuid env) keys \<longrightarrow>
        fst (CreateKey bcrypt env keys (APIKey.UserID k) kinput) = Inl ErrMaxKeysReached \<and>
        (\<exists>stored. CreateKey bcrypt env keys' (APIKey.UserID k) kinput =
            (Inr \<lparr> APIKeyCreateResponse.Response = APIKey_ToResponse stored,
                   APIKeyCreateResponse.Key = ''bas_'' @ hex_EncodeToString (map f [0..<32]) \<rparr>,
             keys' @ [stored]) \<and> APIKey.IsActive stored)"
    unfolding keys'_def
    using Revoke_then_create [where bcrypt = bcrypt and env = env and keys = keys and k = k
        and f = f and h = h and kinput = kinput, OF pk k klive]
    by blast
  have c1: "Delete None now creds (ID c) (UserID c) = (None, creds')"
    unfolding creds'_def by (rule Delete_row [OF cpk c clive])
  have c2: "c\<lparr>DeletedAt := Some now\<rparr> \<in> set creds'"
    unfolding creds'_def by (rule replaced_mem [OF c])
  have c3: "\<forall>x. ClientID x = ClientID c \<longrightarrow> isl (Create fault'' fresh now' creds' x)"
    using Create_reserved [OF c2, of _ fault'' fresh now'] by simp
  have c4: "\<forall>l. FindByUserID None creds' (UserID c) = Inr l \<longrightarrow> (\<forall>r\<in>set l. ID r \<noteq> ID c)"
    unfolding creds'_def using Delete_unlisted [OF cpk c] by blast
  have c5: "IsActive c \<longrightarrow>
        CountByUserID None creds' (UserID c) =
          Inr (int (length (filter (\<lambda>r. UserID r = UserID c \<and> IsActive r \<and> DeletedAt r = None)
                              creds)) - 1)"
    unfolding creds'_def using Delete_count [OF cpk c clive] by blast
  have c6: "IsActive c \<and> CountByUserID None creds (UserID c) = Inr 5 \<and>
      db_fault env' 0 = None \<and> entropy env' 0 = RandBytes f1 \<and> entropy env' 1 = RandBytes f2 \<and>
      entropy env' 2 = RandBytes g \<and>
      (CreateCredentialInput.PublicKey cinput = '''' \<or>
       snd (ValidatePublicKey lib (CreateCredentialInput.PublicKey cinput)) = None) \<and>
      db_fault env' 1 = None \<and> \<not> list_ex (\<lambda>r. ID r = new_uuid env') creds \<and>
      \<not> list_ex (\<lambda>r. ClientID r = ''BAS'' @ take 29 (hex_EncodeToString (map f1 [0..<16])))
           creds \<longrightarrow>
        fst (CreateCredential lib env' creds (UserID c) cinput) = Inl ErrMaxCredentialsReached \<and>
        (\<exists>stored. CreateCredential lib env' creds' (UserID c) cinput =
            (Inr \<lparr> PartnerCredentialCreateResponse.Response = ToResponse stored,
                   PartnerCredentialCreateResponse.ClientSecret =
                     hex_EncodeToString (map f2 [0..<32]) \<rparr>,
             creds' @ [stored]) \<and> IsActive stored)"
    unfolding creds'_def
    using Delete_then_create [where lib = lib and env = env' and creds = creds and c = c
        and ?f1.0 = f1 and ?f2.0 = f2 and g = g and cinput = cinput and now = now, OF cpk c clive]
    by blast
  show ?thesis
    using a1 a2 a3 b1 b2 b3 b4 b5 c1 c2 c3 c4 c5 c6 by (intro conjI)
qed

subsection \<open>Quota and revocation on the sample data\<close>

lemma ten_keys_distinct: "distinct (map APIKey.ID ten_keys)"
  by (simp add: ten_keys_def)

lemma ten_keys_count: "APIKeyRepository_CountByUserID None ten_keys 7 = Inr 10"
  by (simp add: APIKeyRepository_CountByUserID_def ten_keys_def sample_key_def)

lemma five_credentials_distinct: "distinct (map ID five_credentials)"
  by (simp add: five_credentials_def)

lemma five_credentials_count: "CountByUserID None five_credentials 7 = Inr 5"
  by (simp add: CountByUserID_def five_credentials_def sample_credential_def)

lemma ten_keys_fresh: "\<not> list_ex (\<lambda>r. APIKey.ID r = 99) ten_keys"
  by (simp add: ten_keys_def)

lemma five_credentials_fresh:
  "\<not> list_ex (\<lambda>r. ID r = 99) five_credentials"
  "\<not> list_ex (\<lambda>r. ClientID r = ''BAS'' @ take 29 (hex_EncodeToString (map (\<lambda>i. 0xa7) [0..<16])))
       five_credentials"
  by (simp_all add: five_credentials_def hex_a7_16)

theorem revocation_keeps_the_record_witness:
  "fst (CreateKey sample_bcrypt sample_env ten_keys 7 sample_key_input) = Inl ErrMaxKeysReached \<and>
   \<not> isl (fst (CreateKey sample_bcrypt sample_env (snd (APIKeyRepository_Revoke None ten_keys 3 7))
               7 sample_key_input)) \<and>
   map APIKey.ID (snd (APIKeyRepository_Revoke None ten_keys 3 7)) = map APIKey.ID ten_keys \<and>
   fst (CreateCredential sample_x509lib sample_env five_credentials 7 sample_create_input) =
     Inl ErrMaxCredentialsReached \<and>
   \<not> isl (fst (CreateCredential sample_x509lib sample_env
               (snd (Delete None 5 five_credentials 3 7)) 7 sample_create_input)) \<and>
   map ClientID (snd (Delete None 5 five_credentials 3 7)) = map ClientID five_credentials"
proof -
  define k where "k = sample_key\<lparr>APIKey.ID := 3\<rparr>"
  define c where "c = sample_credential\<lparr>ID := 3,
     ClientID := ''BAS0000000000000000000000000000'' @ [hextable ! 3]\<rparr>"
  have kmem: "k \<in> set ten_keys" by (simp add: k_def ten_keys_def)
  have cmem: "c \<in> set five_credentials" by (simp add: c_def five_credentials_def)
  have kf: "APIKey.DeletedAt k = None" "APIKey.IsActive k" "APIKey.ID k = 3" "APIKey.UserID k = 7"
    by (simp_all add: k_def sample_key_def)
  have cf: "DeletedAt c = None" "IsActive c" "ID c = 3" "UserID c = 7"
    by (simp_all add: c_def sample_credential_def)
  have env: "db_fault sample_env 0 = None" "db_fault sample_env 1 = None"
    "entropy sample_env 0 = RandBytes (\<lambda>i. 0xa7)" "entropy sample_env 1 = RandBytes (\<lambda>i. 0xa7)"
    "entropy sample_env 2 = RandBytes (\<lambda>i. 0xa7)" "new_uuid sample_env = 99"
    by (simp_all add: sample_env_def)
  have hash: "sample_bcrypt (''bas_'' @ hex_EncodeToString (map (\<lambda>i. 0xa7) [0..<32])) =
                Inr ''$2a$10$bas_a7a7''"
    by (simp add: sample_bcrypt_def hex_a7_32 fresh_secret_def)
  have key: "CreateCredentialInput.PublicKey sample_create_input = ''''"
    by (simp add: sample_create_input_def)
  note T = revocation_keeps_the_record [OF ten_keys_distinct kmem kf(1)
      five_credentials_distinct cmem cf(1),
      where env = sample_env and bcrypt = sample_bcrypt and f = "\<lambda>i. 0xa7"
        and h = "''$2a$10$bas_a7a7''" and kinput = sample_key_input and env' = sample_env
        and ?f1.0 = "\<lambda>i. 0xa7" and ?f2.0 = "\<lambda>i. 0xa7" and g = "\<lambda>i. 0xa7"
        and lib = sample_x509lib and cinput = sample_create_input and now = 5
        and fault = None and keyID = 3 and uid = 7 and fault' = None and cid = 3 and uid' = 7]
  note a1 = T [THEN conjunct1]
  note a3 = T [THEN conjunct2, THEN conjunct2, THEN conjunct1]
  note b1 = T [THEN conjunct2, THEN conjunct2, THEN conjunct2, THEN conjunct1]
  note b5 = T [THEN conjunct2, THEN conjunct2, THEN conjunct2, THEN conjunct2,
      THEN conjunct2, THEN conjunct2, THEN conjunct2, THEN conjunct1]
  note c1 = T [THEN conjunct2, THEN conjunct2, THEN conjunct2, THEN conjunct2,
      THEN conjunct2, THEN conjunct2, THEN conjunct2, THEN conjunct2,
      THEN conjunct1]
  note c6 = T [THEN conjunct2, THEN conjunct2, THEN conjunct2, THEN conjunct2,
      THEN conjunct2, THEN conjunct2, THEN conjunct2, THEN conjunct2,
      THEN conjunct2, THEN conjunct2, THEN conjunct2, THEN conjunct2,
      THEN conjunct2]
  have rev: "snd (APIKeyRepository_Revoke None ten_keys 3 7) =
               map (\<lambda>r. if r = k then k\<lparr>APIKey.IsActive := False\<rparr> else r) ten_keys"
    using b1 by (simp add: kf)
  have del: "snd (Delete None 5 five_credentials 3 7) =
               map (\<lambda>r. if r = c then c\<lparr>DeletedAt := Some 5\<rparr> else r) five_credentials"
    using c1 by (simp add: cf)
  have keys: "fst (CreateKey sample_bcrypt sample_env ten_keys 7 sample_key_input) =
                Inl ErrMaxKeysReached \<and>
              \<not> isl (fst (CreateKey sample_bcrypt sample_env
                          (snd (APIKeyRepository_Revoke None ten_keys 3 7)) 7 sample_key_input))"
    using b5 kf env hash ten_keys_count ten_keys_fresh unfolding rev by auto
  have creds: "fst (CreateCredential sample_x509lib sample_env five_credentials 7
                      sample_create_input) = Inl ErrMaxCredentialsReached \<and>
               \<not> isl (fst (CreateCredential sample_x509lib sample_env
                           (snd (Delete None 5 five_credentials 3 7)) 7 sample_create_input))"
    using c6 cf env key five_credentials_count five_credentials_fresh unfolding del by auto
  show ?thesis
    using a1 a3 keys creds by simp
qed





section \<open>Properties of token verification and issuance\<close>

lemma jwt_Parse_guarded_non_HMAC:
  assumes "ParseUnverified lib tokenString = Some token"
    and "\<And>h. Method token \<noteq> SigningMethodHMAC h"
  shows "jwt_Parse lib now tokenString (JWTAuth_keyFunc secret) =
         Inl (Ext ''error while executing keyfunc'')"
  using assms by (cases "Method token") (auto simp: jwt_Parse_def JWTAuth_keyFunc_def)

lemma jwt_Parse_unguarded_non_HMAC:
  assumes "ParseUnverified lib tokenString = Some token"
    and "\<And>h. Method token \<noteq> SigningMethodHMAC h"
  shows "jwt_Parse lib now tokenString (RefreshToken_keyFunc cfg) =
         Inl (Ext ''token signature is invalid'')"
  using assms
  by (cases "Method token") (auto simp: jwt_Parse_def Verify_def RefreshToken_keyFunc_def)

lemma jwt_Parse_undecodable:
  "ParseUnverified lib tokenString = None \<Longrightarrow>
     jwt_Parse lib now tokenString keyFunc = Inl (Ext ''token is malformed'')"
  by (simp add: jwt_Parse_def)

lemma strings_Split_nonempty: "strings_Split sep s = [a, b] \<Longrightarrow> s \<noteq> ''''"
  by auto

text \<open>
  Claim C1. A presented token that does not decode to a token with an HMAC method (its
  \<^verbatim>\<open>alg\<close> header names a registered method outside the HMAC family, or it does not decode
  at all) is rejected on both verification paths, whatever its claims and signature: any
  authorization header whose two parts end in this token gets the unauthorized response of
  \<^verbatim>\<open>JWTAuth\<close>, and \<^verbatim>\<open>AuthService.RefreshToken\<close> returns the error
  \<^verbatim>\<open>invalid refresh token\<close>, so neither resolves a principal. \<^verbatim>\<open>JWTAuth\<close> rejects in its key
  function; \<^verbatim>\<open>RefreshToken\<close>, whose key function returns the secret for every method,
  rejects because the methods outside the HMAC family do not take a byte slice as key.
\<close>

theorem non_HMAC_token_rejected:
  assumes "\<forall>token h. ParseUnverified lib tokenString = Some token \<longrightarrow>
             Method token \<noteq> SigningMethodHMAC h"
  shows "(strings_Split CHR '' '' authHeader = [scheme, tokenString] \<longrightarrow>
            JWTAuth lib secret now authHeader =
              JSON StatusUnauthorized ''Unauthorized''
                (if strings_ToLower scheme = ''bearer'' then ''Invalid or expired token''
                 else ''Invalid authorization header format'')) \<and>
         AuthService_RefreshToken lib cfg env now' users tokenString =
           Inl (ErrorsNew ''invalid refresh token'')"
proof (cases "ParseUnverified lib tokenString")
  case None
  show ?thesis
    using jwt_Parse_undecodable [OF None] strings_Split_nonempty [of "CHR '' ''" authHeader]
    by (simp add: JWTAuth_def AuthService_RefreshToken_def Let_def)
next
  case (Some token)
  then have nh: "\<And>h. Method token \<noteq> SigningMethodHMAC h"
    using assms by simp
  show ?thesis
    using jwt_Parse_guarded_non_HMAC [OF Some nh] jwt_Parse_unguarded_non_HMAC [OF Some nh]
      strings_Split_nonempty [of "CHR '' ''" authHeader]
    by (simp add: JWTAuth_def AuthService_RefreshToken_def Let_def)
qed

lemma jwt_Parse_bad_signature:
  assumes "ParseUnverified lib tokenString = Some token"
    and "Method token = SigningMethodHMAC h"
    and "Signature token \<noteq> hmac_Sum lib h secret (SigningInput token)"
  shows "jwt_Parse lib now tokenString (JWTAuth_keyFunc secret) =
           Inl (Ext ''token signature is invalid'')"
  using assms by (simp add: jwt_Parse_def JWTAuth_keyFunc_def Verify_def)

lemma jwt_Parse_expired:
  assumes "ParseUnverified lib tokenString = Some token"
    and "Claims token ''exp'' = Some (Number e)" "e \<noteq> 0" "e * 1000000000 \<le> now"
  shows "\<exists>err. jwt_Parse lib now tokenString keyFunc = Inl err"
  using assms
  by (auto simp: jwt_Parse_def Validate_def parseNumericDate_def split: sum.splits option.splits)

text \<open>
  Claim C9. \<^verbatim>\<open>JWTAuth\<close> passes the request on only when the header splits at spaces into
  exactly two parts, the first part is \<^verbatim>\<open>bearer\<close> up to case, the second part is verified by
  \<^verbatim>\<open>jwt.Parse\<close>, its \<^verbatim>\<open>type\<close> claim is \<^verbatim>\<open>access\<close> and its \<^verbatim>\<open>sub\<close> claim parses as an identity.
  A missing header, a header of another shape or scheme, a token that fails verification
  (in particular a wrong signature or an expiry in the past), a \<^verbatim>\<open>type\<close> claim other than
  \<^verbatim>\<open>access\<close>, a \<^verbatim>\<open>sub\<close> claim that is no string and one that does not parse all get status
  401 with the error field \<^verbatim>\<open>Unauthorized\<close>. The response body also carries a message, and
  the six messages are different texts, so the body tells the failure causes apart (a wrong
  signature and an expiry in the past share one message).
\<close>

theorem bearer_path_outcomes:
  "(JWTAuth lib secret now authHeader = Next userID email \<longrightarrow>
      (\<exists>scheme tokenString token userIDStr.
          strings_Split CHR '' '' authHeader = [scheme, tokenString] \<and>
          strings_ToLower scheme = ''bearer'' \<and>
          jwt_Parse lib now tokenString (JWTAuth_keyFunc secret) = Inr token \<and>
          Claims token ''type'' = Some (String ''access'') \<and>
          Claims token ''sub'' = Some (String userIDStr) \<and>
          uuid_Parse lib userIDStr = Some userID \<and> email = Claims token ''email'')) \<and>
   (authHeader = '''' \<longrightarrow>
      JWTAuth lib secret now authHeader =
        JSON StatusUnauthorized ''Unauthorized'' ''Missing authorization header'') \<and>
   (authHeader \<noteq> '''' \<and>
    (length (strings_Split CHR '' '' authHeader) \<noteq> 2 \<or>
     strings_ToLower (strings_Split CHR '' '' authHeader ! 0) \<noteq> ''bearer'') \<longrightarrow>
      JWTAuth lib secret now authHeader =
        JSON StatusUnauthorized ''Unauthorized'' ''Invalid authorization header format'') \<and>
   (strings_Split CHR '' '' authHeader = [scheme, tokenString] \<and>
    strings_ToLower scheme = ''bearer'' \<longrightarrow>
      (jwt_Parse lib now tokenString (JWTAuth_keyFunc secret) = Inl err \<longrightarrow>
         JWTAuth lib secret now authHeader =
           JSON StatusUnauthorized ''Unauthorized'' ''Invalid or expired token'') \<and>
      (ParseUnverified lib tokenString = Some token \<and> Method token = SigningMethodHMAC h \<and>
       Signature token \<noteq> hmac_Sum lib h secret (SigningInput token) \<longrightarrow>
         JWTAuth lib secret now authHeader =
           JSON StatusUnauthorized ''Unauthorized'' ''Invalid or expired token'') \<and>
      (ParseUnverified lib tokenString = Some token \<and> Claims token ''exp'' = Some (Number e) \<and>
       e \<noteq> 0 \<and> e * 1000000000 \<le> now \<longrightarrow>
         JWTAuth lib secret now authHeader =
           JSON StatusUnauthorized ''Unauthorized'' ''Invalid or expired token'') \<and>
      (jwt_Parse lib now tokenString (JWTAuth_keyFunc secret) = Inr token \<and>
       Claims token ''type'' \<noteq> Some (String ''access'') \<longrightarrow>
         JWTAuth lib secret now authHeader =
           JSON StatusUnauthorized ''Unauthorized'' ''Invalid token type'') \<and>
      (jwt_Parse lib now tokenString (JWTAuth_keyFunc secret) = Inr token \<and>
       Claims token ''type'' = Some (String ''access'') \<and>
       (\<forall>s. Claims token ''sub'' \<noteq> Some (String s)) \<longrightarrow>
         JWTAuth lib secret now authHeader =
           JSON StatusUnauthorized ''Unauthorized'' ''Invalid user ID in token'') \<and>
      (jwt_Parse lib now tokenString (JWTAuth_keyFunc secret) = Inr token \<and>
       Claims token ''type'' = Some (String ''access'') \<and>
       Claims token ''sub'' = Some (String userIDStr) \<and> uuid_Parse lib userIDStr = None \<longrightarrow>
         JWTAuth lib secret now authHeader =
           JSON StatusUnauthorized ''Unauthorized'' ''Invalid user ID format'')) \<and>
   distinct [''Missing authorization header'', ''Invalid authorization header format'',
             ''Invalid or expired token'', ''Invalid token type'', ''Invalid user ID in token'',
             ''Invalid user ID format'']"
proof -
  have accept: "\<exists>scheme tokenString token userIDStr.
          strings_Split CHR '' '' authHeader = [scheme, tokenString] \<and>
          strings_ToLower scheme = ''bearer'' \<and>
          jwt_Parse lib now tokenString (JWTAuth_keyFunc secret) = Inr token \<and>
          Claims token ''type'' = Some (String ''access'') \<and>
          Claims token ''sub'' = Some (String userIDStr) \<and>
          uuid_Parse lib userIDStr = Some userID \<and> email = Claims token ''email''"
    if ok: "JWTAuth lib secret now authHeader = Next userID email"
  proof -
    from ok have ne: "authHeader \<noteq> ''''"
      by (auto simp: JWTAuth_def)
    from ok ne have two: "length (strings_Split CHR '' '' authHeader) = 2"
      and low: "strings_ToLower (strings_Split CHR '' '' authHeader ! 0) = ''bearer''"
      by (auto simp: JWTAuth_def Let_def split: if_splits)
    from two obtain scheme tokenString where
      sp: "strings_Split CHR '' '' authHeader = [scheme, tokenString]"
      by (auto simp: length_Suc_conv numeral_2_eq_2)
    from ok ne sp low show ?thesis
      by (auto simp: JWTAuth_def Let_def
          split: sum.splits option.splits claim_value.splits if_splits)
  qed
  have format: "JWTAuth lib secret now authHeader =
        JSON StatusUnauthorized ''Unauthorized'' ''Invalid authorization header format''"
    if "authHeader \<noteq> ''''" "length (strings_Split CHR '' '' authHeader) \<noteq> 2 \<or>
     strings_ToLower (strings_Split CHR '' '' authHeader ! 0) \<noteq> ''bearer''"
    using that by (auto simp: JWTAuth_def Let_def)
  have rest: ?thesis
    if "strings_Split CHR '' '' authHeader = [scheme, tokenString] \<and>
        strings_ToLower scheme = ''bearer''"
    using that accept format strings_Split_nonempty [of "CHR '' ''" authHeader scheme tokenString]
      jwt_Parse_bad_signature [of lib tokenString token h secret now]
      jwt_Parse_expired [of lib tokenString token e now "JWTAuth_keyFunc secret"]
    by (auto simp: JWTAuth_def Let_def split: option.splits claim_value.splits)
  show ?thesis
  proof (cases "strings_Split CHR '' '' authHeader = [scheme, tokenString] \<and>
        strings_ToLower scheme = ''bearer''")
    case True
    then show ?thesis by (rule rest)
  next
    case False
    then show ?thesis
      using accept format by (auto simp: JWTAuth_def)
  qed
qed











subsection \<open>Tokens on the sample data\<close>










theorem non_HMAC_token_rejected_witness:
  "JWTAuth sample_authlib (JWTSecret sample_cfg) 1700000001000000000 ''Bearer rs256.sig'' =
     JSON StatusUnauthorized ''Unauthorized'' ''Invalid or expired token'' \<and>
   AuthService_RefreshToken sample_authlib sample_cfg sample_env 1700000001000000000
     [sample_user] ''rs256.sig'' = Inl (ErrorsNew ''invalid refresh token'')"
proof -
  have non_hmac: "\<forall>token h. ParseUnverified sample_authlib ''rs256.sig'' = Some token \<longrightarrow>
                     Method token \<noteq> SigningMethodHMAC h"
    by (auto simp: sample_authlib_def)
  have split: "strings_Split CHR '' '' ''Bearer rs256.sig'' = [''Bearer'', ''rs256.sig'']"
    by simp
  have lower: "strings_ToLower ''Bearer'' = ''bearer''"
    by (simp add: strings_ToLower_def)
  from non_HMAC_token_rejected [OF non_hmac, of "''Bearer rs256.sig''" "''Bearer''"
      "JWTSecret sample_cfg" 1700000001000000000 sample_cfg sample_env 1700000001000000000
      "[sample_user]"]
  show ?thesis
    using split lower by simp
qed

theorem bearer_path_outcomes_witness:
  "JWTAuth sample_authlib (JWTSecret sample_cfg) 1700000001000000000 '''' =
     JSON StatusUnauthorized ''Unauthorized'' ''Missing authorization header'' \<and>
   JWTAuth sample_authlib (JWTSecret sample_cfg) 1700000001000000000 ''Basic access.sig'' =
     JSON StatusUnauthorized ''Unauthorized'' ''Invalid authorization header format'' \<and>
   JWTAuth sample_authlib (JWTSecret sample_cfg) 1700000001000000000 ''Bearer  access.sig'' =
     JSON StatusUnauthorized ''Unauthorized'' ''Invalid authorization header format'' \<and>
   JWTAuth sample_authlib (JWTSecret sample_cfg) 1700086400000000000 ''bearer access.sig'' =
     JSON StatusUnauthorized ''Unauthorized'' ''Invalid or expired token''"
proof -
  note T = bearer_path_outcomes [where lib = sample_authlib and secret = "JWTSecret sample_cfg"]
  have a: "JWTAuth sample_authlib (JWTSecret sample_cfg) 1700000001000000000 '''' =
     JSON StatusUnauthorized ''Unauthorized'' ''Missing authorization header''"
    using T [where authHeader = "''''" and now = 1700000001000000000] by simp
  have b: "JWTAuth sample_authlib (JWTSecret sample_cfg) 1700000001000000000
             ''Basic access.sig'' =
     JSON StatusUnauthorized ''Unauthorized'' ''Invalid authorization header format''"
    using T [where authHeader = "''Basic access.sig''" and now = 1700000001000000000
        and scheme = "''Basic''" and tokenString = "''access.sig''"]
    by (simp add: strings_ToLower_def)
  have c: "JWTAuth sample_authlib (JWTSecret sample_cfg) 1700000001000000000
             ''Bearer  access.sig'' =
     JSON StatusUnauthorized ''Unauthorized'' ''Invalid authorization header format''"
    using T [where authHeader = "''Bearer  access.sig''" and now = 1700000001000000000
        and scheme = "''Bearer''" and tokenString = "''access.sig''"]
    by simp
  have d: "JWTAuth sample_authlib (JWTSecret sample_cfg) 1700086400000000000
             ''bearer access.sig'' =
     JSON StatusUnauthorized ''Unauthorized'' ''Invalid or expired token''"
    using T [where authHeader = "''bearer access.sig''" and now = 1700086400000000000
        and scheme = "''bearer''" and tokenString = "''access.sig''" and e = 1700086400
        and token = "\<lparr> Method = SigningMethodHMAC SHA256, Claims = sample_access_claims,
                         SigningInput = ''access'', Signature = [1] \<rparr>"]
    by (simp add: strings_ToLower_def sample_authlib_def sample_access_claims_def)
  from a b c d show ?thesis by simp
qed

text \<open>
  The responses to two failure causes are not the same: a request without the header and a
  request with the scheme \<^verbatim>\<open>Basic\<close> both get status 401 and the error field \<^verbatim>\<open>Unauthorized\<close>,
  and the \<^verbatim>\<open>message\<close> fields of the two response bodies differ.
\<close>

theorem unauthorized_responses_differ:
  "JWTAuth sample_authlib (JWTSecret sample_cfg) 1700000001000000000 '''' =
     JSON 401 ''Unauthorized'' ''Missing authorization header'' \<and>
   JWTAuth sample_authlib (JWTSecret sample_cfg) 1700000001000000000 ''Basic access.sig'' =
     JSON 401 ''Unauthorized'' ''Invalid authorization header format'' \<and>
   JWTAuth sample_authlib (JWTSecret sample_cfg) 1700000001000000000 '''' \<noteq>
   JWTAuth sample_authlib (JWTSecret sample_cfg) 1700000001000000000 ''Basic access.sig''"
  by (simp add: JWTAuth_def StatusUnauthorized_def strings_ToLower_def Let_def)

end
